theory Spec2Isabelle
  imports Complex_Main "HOL-Library.Multiset"
begin

section \<open>Python and numpy primitives used by the sources\<close>

text \<open>
  The two sources, \<^verbatim>\<open>emg_transform.py\<close> and \<^verbatim>\<open>EMG_Utils.py\<close>, compute with Python
  floats. A finite float is modelled as a real number (rounding error is not modelled);
  the one special value numpy produces in these sources, not-a-number, is a constructor
  of its own, so that a result that is not a number is visible in the model.
\<close>

datatype npfloat = Num real | NaN

text \<open>The exceptions the modelled code can raise.\<close>

datatype error = IndexError | ValueError | ZeroDivisionError

text \<open>
  \<^verbatim>\<open>int(x)\<close> on a float truncates toward zero.
\<close>

definition py_int :: "real \<Rightarrow> int" where
  "py_int x = (if 0 \<le> x then \<lfloor>x\<rfloor> else \<lceil>x\<rceil>)"

text \<open>
  \<^verbatim>\<open>round(x)\<close> with one argument returns the nearest integer; a tie goes to the even
  neighbour.
\<close>

definition py_round :: "real \<Rightarrow> int" where
  "py_round x =
     (let f = \<lfloor>x\<rfloor>; d = x - of_int f
      in if d < 1 / 2 then f
         else if 1 / 2 < d then f + 1
         else if even f then f else f + 1)"

text \<open>
  \<^verbatim>\<open>xs[i]\<close>: a negative index counts from the end, an index out of range raises
  \<^verbatim>\<open>IndexError\<close>.
\<close>

definition py_index :: "'a list \<Rightarrow> int \<Rightarrow> error + 'a" where
  "py_index xs i =
     (if 0 \<le> i \<and> i < int (length xs) then Inr (xs ! nat i)
      else if i < 0 \<and> - int (length xs) \<le> i then Inr (xs ! nat (int (length xs) + i))
      else Inl IndexError)"

text \<open>
  \<^verbatim>\<open>xs[i:j]\<close>: each bound is first brought into \<open>0..len\<close> (a negative bound counts
  from the end, and is clipped), and the slice is empty when the bounds cross. A slice
  never raises.
\<close>

definition slice_bound :: "nat \<Rightarrow> int \<Rightarrow> nat" where
  "slice_bound n i = (if i < 0 then nat (int n + i) else min (nat i) n)"

definition py_slice :: "'a list \<Rightarrow> int \<Rightarrow> int \<Rightarrow> 'a list" where
  "py_slice xs i j =
     (let lo = slice_bound (length xs) i; hi = slice_bound (length xs) j
      in take (hi - lo) (drop lo xs))"

text \<open>
  The built-ins \<^verbatim>\<open>max\<close> and \<^verbatim>\<open>min\<close> raise \<^verbatim>\<open>ValueError\<close> on an empty sequence.
\<close>

fun py_max :: "real list \<Rightarrow> error + real" where
  "py_max [] = Inl ValueError"
| "py_max (x # xs) = Inr (fold max xs x)"

fun py_min :: "real list \<Rightarrow> error + real" where
  "py_min [] = Inl ValueError"
| "py_min (x # xs) = Inr (fold min xs x)"

text \<open>
  The built-in \<^verbatim>\<open>sorted(xs, key=f)\<close> is a stable sort by ascending key. A stable sort
  of a list by a linearly ordered key has one result only, so the library's stable
  insertion sort stands for it.
\<close>

definition py_sorted :: "('a \<Rightarrow> real) \<Rightarrow> 'a list \<Rightarrow> 'a list" where
  "py_sorted key xs = sort_key key xs"

text \<open>
  \<^verbatim>\<open>sorted(list(set(xs)))\<close>: the distinct values, ascending.
\<close>

definition sorted_set :: "real list \<Rightarrow> real list" where
  "sorted_set xs = sort (remdups xs)"

text \<open>
  \<^verbatim>\<open>np.mean\<close> and \<^verbatim>\<open>np.std\<close> of a one-dimensional sequence. On an empty sequence
  both return not-a-number (numpy prints a warning and returns); a not-a-number among
  the values makes the result not-a-number. \<^verbatim>\<open>np.std\<close> is called with its default
  \<^verbatim>\<open>ddof=0\<close>: the square root of the mean of the squared deviations from the mean.
\<close>

fun all_nums :: "npfloat list \<Rightarrow> real list option" where
  "all_nums [] = Some []"
| "all_nums (NaN # xs) = None"
| "all_nums (Num x # xs) = map_option ((#) x) (all_nums xs)"

definition np_mean :: "npfloat list \<Rightarrow> npfloat" where
  "np_mean xs =
     (case all_nums xs of
        None \<Rightarrow> NaN
      | Some ys \<Rightarrow> if ys = [] then NaN else Num (sum_list ys / real (length ys)))"

definition np_std :: "npfloat list \<Rightarrow> npfloat" where
  "np_std xs =
     (case all_nums xs of
        None \<Rightarrow> NaN
      | Some ys \<Rightarrow>
          if ys = [] then NaN
          else let m = sum_list ys / real (length ys)
               in Num (sqrt (sum_list (map (\<lambda>y. (y - m)\<^sup>2) ys) / real (length ys))))"


section \<open>emg\_transform.py\<close>

text \<open>
  \<^verbatim>\<open>rectify_emg\<close> is \<^verbatim>\<open>np.abs\<close>, the absolute value of every sample.
\<close>

definition rectify_emg :: "real list \<Rightarrow> real list" where
  "rectify_emg emg_array = map abs emg_array"

text \<open>
  \<^verbatim>\<open>calculate_average_amplitude\<close>: the two indices are \<^verbatim>\<open>int(ms * scan_rate / 1000)\<close>,
  the window is the Python slice between them, and the result is \<^verbatim>\<open>np.mean\<close> of the
  rectified window.
\<close>

definition calculate_average_amplitude :: "real list \<Rightarrow> real \<Rightarrow> real \<Rightarrow> real \<Rightarrow> npfloat" where
  "calculate_average_amplitude emg_data start_ms end_ms scan_rate =
     (let start_index = py_int (start_ms * scan_rate / 1000);
          end_index = py_int (end_ms * scan_rate / 1000);
          emg_window = py_slice emg_data start_index end_index;
          rectified_emg_window = rectify_emg emg_window
      in np_mean (map Num rectified_emg_window))"

text \<open>
  A recording is the dictionary \<^verbatim>\<open>{'stimulus_v': ..., 'channel_data': [...]}\<close> of the
  pickled session; \<open>channel_data\<close> holds one sample sequence per channel.
\<close>

record recording =
  stimulus_v :: real
  channel_data :: "real list list"

text \<open>
  The binning expression \<^verbatim>\<open>round(recording['stimulus_v'] / bin_size) * bin_size\<close>, which
  occurs in \<^verbatim>\<open>calculate_mean_std\<close> and in \<^verbatim>\<open>EMGDataset.plot_reflex_curves\<close>. Dividing a
  Python float by zero raises \<^verbatim>\<open>ZeroDivisionError\<close>.
\<close>

definition binned_stimulus_v :: "recording \<Rightarrow> real \<Rightarrow> error + real" where
  "binned_stimulus_v recording bin_size =
     (if bin_size = 0 then Inl ZeroDivisionError
      else Inr (of_int (py_round (stimulus_v recording / bin_size)) * bin_size))"

text \<open>
  The loop of \<^verbatim>\<open>calculate_mean_std\<close> over the recordings, with its two accumulators
  \<^verbatim>\<open>m_wave_amplitudes\<close> and \<^verbatim>\<open>h_response_amplitudes\<close>: a recording whose binned
  voltage equals \<^verbatim>\<open>stimulus_value\<close> appends one amplitude to each.
\<close>

fun amplitudes_loop ::
  "recording list \<Rightarrow> real \<Rightarrow> int \<Rightarrow> real \<Rightarrow> real \<Rightarrow> real \<Rightarrow> real \<Rightarrow> real \<Rightarrow> real \<Rightarrow>
   npfloat list \<Rightarrow> npfloat list \<Rightarrow> error + (npfloat list \<times> npfloat list)" where
  "amplitudes_loop [] stimulus_value channel_index m_start_ms m_end_ms h_start_ms h_end_ms
     bin_size scan_rate m_wave_amplitudes h_response_amplitudes =
     Inr (m_wave_amplitudes, h_response_amplitudes)"
| "amplitudes_loop (recording # recordings) stimulus_value channel_index m_start_ms m_end_ms
     h_start_ms h_end_ms bin_size scan_rate m_wave_amplitudes h_response_amplitudes =
     (case binned_stimulus_v recording bin_size of
        Inl e \<Rightarrow> Inl e
      | Inr b \<Rightarrow>
          if b = stimulus_value then
            (case py_index (channel_data recording) channel_index of
               Inl e \<Rightarrow> Inl e
             | Inr cd \<Rightarrow>
                 amplitudes_loop recordings stimulus_value channel_index m_start_ms m_end_ms
                   h_start_ms h_end_ms bin_size scan_rate
                   (m_wave_amplitudes @ [calculate_average_amplitude cd m_start_ms m_end_ms scan_rate])
                   (h_response_amplitudes @ [calculate_average_amplitude cd h_start_ms h_end_ms scan_rate]))
          else
            amplitudes_loop recordings stimulus_value channel_index m_start_ms m_end_ms
              h_start_ms h_end_ms bin_size scan_rate m_wave_amplitudes h_response_amplitudes)"

text \<open>
  \<^verbatim>\<open>calculate_mean_std\<close>: the loop from two empty lists, then mean and standard
  deviation of each list.
\<close>

definition calculate_mean_std ::
  "recording list \<Rightarrow> real \<Rightarrow> int \<Rightarrow> real \<Rightarrow> real \<Rightarrow> real \<Rightarrow> real \<Rightarrow> real \<Rightarrow> real \<Rightarrow>
   error + (npfloat \<times> npfloat \<times> npfloat \<times> npfloat)" where
  "calculate_mean_std recordings stimulus_value channel_index m_start_ms m_end_ms h_start_ms
     h_end_ms bin_size scan_rate =
     (case amplitudes_loop recordings stimulus_value channel_index m_start_ms m_end_ms
             h_start_ms h_end_ms bin_size scan_rate [] [] of
        Inl e \<Rightarrow> Inl e
      | Inr (m_wave_amplitudes, h_response_amplitudes) \<Rightarrow>
          Inr (np_mean m_wave_amplitudes, np_std m_wave_amplitudes,
               np_mean h_response_amplitudes, np_std h_response_amplitudes))"


section \<open>EMG\_Utils.py: the session\<close>

text \<open>
  The module reads its defaults once, \<^verbatim>\<open>config = utils.load_config('config.yaml')\<close>.
  The loader and the file are not part of the sources, so the configuration is a
  parameter of the constructors; its fields are the keys the constructors read.
\<close>

record config =
  cfg_m_start :: real
  cfg_m_end :: real
  cfg_h_start :: real
  cfg_h_end :: real
  cfg_time_window :: real
  cfg_bin_size :: real

text \<open>
  The unpickled session record, with the keys \<^verbatim>\<open>load_session_data\<close> reads. A record
  of this type is a valid session record: every key is present and has its type.
\<close>

record pickled_info =
  pk_session_name :: string
  pk_num_channels :: int
  pk_scan_rate :: real
  pk_num_samples :: int
  pk_stim_duration :: real
  pk_stim_interval :: real
  pk_emg_amp_gains :: "real list"

record session_data =
  pk_session_info :: pickled_info
  pk_recordings :: "recording list"

text \<open>
  The attributes \<^verbatim>\<open>load_session_data\<close> sets on the session object, and the ones
  \<^verbatim>\<open>EMGSession.__init__\<close> adds after it.
\<close>

record loaded_session =
  session_name :: string
  num_channels :: int
  scan_rate :: real
  num_samples :: int
  stim_duration :: real
  stim_interval :: real
  emg_amp_gains :: "real list"
  recordings :: "recording list"

record EMGSession = loaded_session +
  m_start :: real
  m_end :: real
  h_start :: real
  h_end :: real
  time_window_ms :: real
  m_color :: string
  h_color :: string
  flag_style :: string

definition load_session_data :: "session_data \<Rightarrow> loaded_session" where
  "load_session_data session_data =
     (let session_info = pk_session_info session_data
      in \<lparr> session_name = pk_session_name session_info,
           num_channels = pk_num_channels session_info,
           scan_rate = pk_scan_rate session_info,
           num_samples = pk_num_samples session_info,
           stim_duration = pk_stim_duration session_info,
           stim_interval = pk_stim_interval session_info,
           emg_amp_gains = pk_emg_amp_gains session_info,
           recordings = py_sorted stimulus_v (pk_recordings session_data) \<rparr>)"

definition EMGSession_init :: "config \<Rightarrow> session_data \<Rightarrow> EMGSession" where
  "EMGSession_init cfg pickled_session_data =
     (let self = load_session_data pickled_session_data
      in \<lparr> session_name = session_name self,
           num_channels = num_channels self,
           scan_rate = scan_rate self,
           num_samples = num_samples self,
           stim_duration = stim_duration self,
           stim_interval = stim_interval self,
           emg_amp_gains = emg_amp_gains self,
           recordings = recordings self,
           m_start = cfg_m_start cfg,
           m_end = cfg_m_end cfg,
           h_start = cfg_h_start cfg,
           h_end = cfg_h_end cfg,
           time_window_ms = cfg_time_window cfg,
           m_color = ''blue'',
           h_color = ''orange'',
           flag_style = '':'' \<rparr>)"

text \<open>
  What a method hands to the outside: the printed parameters, the sample sequences
  given to \<^verbatim>\<open>plot\<close> (each with the channel index of its loop iteration), or the
  per-channel lists given to \<^verbatim>\<open>scatter\<close>. Figures, axes, titles, the time axis and the
  custom channel names only label the picture and are left out; matplotlib's own
  failures are not modelled.
\<close>

datatype method_output =
  Printed string int real int real real "real list"
| Plotted "(nat \<times> real list) list"
| Scattered "(real list \<times> npfloat list \<times> npfloat list) list"

text \<open>
  No method of \<^verbatim>\<open>EMGSession\<close> assigns to an attribute of \<^verbatim>\<open>self\<close> or changes a
  recording in place (\<^verbatim>\<open>np.abs\<close> and slicing build new sequences). Each method is
  modelled as returning the object after the call together with its outcome, the
  object being returned also when the method raises.
\<close>

definition session_parameters :: "EMGSession \<Rightarrow> EMGSession \<times> (error + method_output)" where
  "session_parameters self =
     (self, Inr (Printed (session_name self) (num_channels self) (scan_rate self)
                   (num_samples self) (stim_duration self) (stim_interval self)
                   (emg_amp_gains self)))"

definition num_samples_time_window :: "EMGSession \<Rightarrow> int" where
  "num_samples_time_window self = py_int (time_window_ms self * scan_rate self / 1000)"

text \<open>
  \<^verbatim>\<open>plot_emg\<close> and \<^verbatim>\<open>plot_emg_rectified\<close>: for every recording and every channel of
  it, the first \<^verbatim>\<open>num_samples_time_window\<close> samples are plotted (\<^verbatim>\<open>channel_data[:n]\<close>),
  rectified in the second method. Both branches on the custom names plot the same data.
\<close>

definition plot_emg :: "EMGSession \<Rightarrow> string list \<Rightarrow> bool \<Rightarrow> bool \<Rightarrow> EMGSession \<times> (error + method_output)" where
  "plot_emg self channel_names m_flags h_flags =
     (self, Inr (Plotted (concat (map (\<lambda>recording.
        map (\<lambda>(channel_index, samples).
               (channel_index, py_slice samples 0 (num_samples_time_window self)))
            (enumerate 0 (channel_data recording)))
        (recordings self)))))"

definition plot_emg_rectified :: "EMGSession \<Rightarrow> string list \<Rightarrow> bool \<Rightarrow> bool \<Rightarrow> EMGSession \<times> (error + method_output)" where
  "plot_emg_rectified self channel_names m_flags h_flags =
     (self, Inr (Plotted (concat (map (\<lambda>recording.
        map (\<lambda>(channel_index, samples).
               (channel_index, py_slice (rectify_emg samples) 0 (num_samples_time_window self)))
            (enumerate 0 (channel_data recording)))
        (recordings self)))))"

text \<open>
  \<^verbatim>\<open>plot_emg_suspectedH\<close>, lines 293--294 and 310--311 (the same two lines in both
  branches): the window is
  \<^verbatim>\<open>recording['channel_data'][channel_index][int(h_start * scan_rate / 1000):int(h_end * scan_rate / 1000)]\<close>
  and the test is \<^verbatim>\<open>max(h_window) - min(h_window) > h_threshold\<close>.
\<close>

definition h_window :: "EMGSession \<Rightarrow> recording \<Rightarrow> int \<Rightarrow> error + real list" where
  "h_window self recording channel_index =
     (case py_index (channel_data recording) channel_index of
        Inl e \<Rightarrow> Inl e
      | Inr cd \<Rightarrow>
          Inr (py_slice cd (py_int (h_start self * scan_rate self / 1000))
                 (py_int (h_end self * scan_rate self / 1000))))"

definition suspected_h :: "EMGSession \<Rightarrow> recording \<Rightarrow> int \<Rightarrow> real \<Rightarrow> error + bool" where
  "suspected_h self recording channel_index h_threshold =
     (case h_window self recording channel_index of
        Inl e \<Rightarrow> Inl e
      | Inr w \<Rightarrow>
          (case py_max w of
             Inl e \<Rightarrow> Inl e
           | Inr mx \<Rightarrow>
               (case py_min w of
                  Inl e \<Rightarrow> Inl e
                | Inr mn \<Rightarrow> Inr (mx - mn > h_threshold))))"

text \<open>The inner loop over \<^verbatim>\<open>enumerate(recording['channel_data'])\<close> and the outer loop
  over the recordings; an exception ends both.\<close>

fun suspectedH_channels ::
  "EMGSession \<Rightarrow> recording \<Rightarrow> (nat \<times> real list) list \<Rightarrow> real \<Rightarrow> error + (nat \<times> real list) list" where
  "suspectedH_channels self recording [] h_threshold = Inr []"
| "suspectedH_channels self recording ((channel_index, samples) # rest) h_threshold =
     (case suspected_h self recording (int channel_index) h_threshold of
        Inl e \<Rightarrow> Inl e
      | Inr flagged \<Rightarrow>
          (case suspectedH_channels self recording rest h_threshold of
             Inl e \<Rightarrow> Inl e
           | Inr plotted \<Rightarrow>
               Inr ((if flagged
                     then [(channel_index, py_slice samples 0 (num_samples_time_window self))]
                     else []) @ plotted)))"

fun suspectedH_recordings ::
  "EMGSession \<Rightarrow> recording list \<Rightarrow> real \<Rightarrow> error + (nat \<times> real list) list" where
  "suspectedH_recordings self [] h_threshold = Inr []"
| "suspectedH_recordings self (recording # rest) h_threshold =
     (case suspectedH_channels self recording (enumerate 0 (channel_data recording)) h_threshold of
        Inl e \<Rightarrow> Inl e
      | Inr plotted \<Rightarrow>
          (case suspectedH_recordings self rest h_threshold of
             Inl e \<Rightarrow> Inl e
           | Inr later \<Rightarrow> Inr (plotted @ later)))"

definition plot_emg_suspectedH :: "EMGSession \<Rightarrow> string list \<Rightarrow> real \<Rightarrow> bool \<Rightarrow> EMGSession \<times> (error + method_output)" where
  "plot_emg_suspectedH self channel_names h_threshold plot_legend =
     (self, case suspectedH_recordings self (recordings self) h_threshold of
              Inl e \<Rightarrow> Inl e
            | Inr plotted \<Rightarrow> Inr (Plotted plotted))"

text \<open>
  \<^verbatim>\<open>EMGSession.plot_reflex_curves\<close>: for every channel index in
  \<^verbatim>\<open>range(num_channels)\<close>, the M and H amplitudes of every recording and its stimulus
  voltage.
\<close>

fun session_curve ::
  "EMGSession \<Rightarrow> int \<Rightarrow> recording list \<Rightarrow> error + (real list \<times> npfloat list \<times> npfloat list)" where
  "session_curve self channel_index [] = Inr ([], [], [])"
| "session_curve self channel_index (recording # rest) =
     (case py_index (channel_data recording) channel_index of
        Inl e \<Rightarrow> Inl e
      | Inr cd \<Rightarrow>
          (case session_curve self channel_index rest of
             Inl e \<Rightarrow> Inl e
           | Inr (stimulus_voltages, m_wave_amplitudes, h_response_amplitudes) \<Rightarrow>
               Inr (stimulus_v recording # stimulus_voltages,
                    calculate_average_amplitude cd (m_start self) (m_end self) (scan_rate self)
                      # m_wave_amplitudes,
                    calculate_average_amplitude cd (h_start self) (h_end self) (scan_rate self)
                      # h_response_amplitudes)))"

fun session_curves ::
  "EMGSession \<Rightarrow> int list \<Rightarrow> error + (real list \<times> npfloat list \<times> npfloat list) list" where
  "session_curves self [] = Inr []"
| "session_curves self (channel_index # rest) =
     (case session_curve self channel_index (recordings self) of
        Inl e \<Rightarrow> Inl e
      | Inr c \<Rightarrow>
          (case session_curves self rest of
             Inl e \<Rightarrow> Inl e
           | Inr cs \<Rightarrow> Inr (c # cs)))"

definition plot_reflex_curves :: "EMGSession \<Rightarrow> string list \<Rightarrow> EMGSession \<times> (error + method_output)" where
  "plot_reflex_curves self channel_names =
     (self, case session_curves self [0 .. num_channels self - 1] of
              Inl e \<Rightarrow> Inl e
            | Inr cs \<Rightarrow> Inr (Scattered cs))"

text \<open>A call of one of the five methods, and a sequence of calls on one object.\<close>

datatype method_call =
  Session_parameters
| Plot_emg "string list" bool bool
| Plot_emg_rectified "string list" bool bool
| Plot_emg_suspectedH "string list" real bool
| Plot_reflex_curves "string list"

fun call :: "EMGSession \<Rightarrow> method_call \<Rightarrow> EMGSession \<times> (error + method_output)" where
  "call self Session_parameters = session_parameters self"
| "call self (Plot_emg channel_names m_flags h_flags) = plot_emg self channel_names m_flags h_flags"
| "call self (Plot_emg_rectified channel_names m_flags h_flags) =
     plot_emg_rectified self channel_names m_flags h_flags"
| "call self (Plot_emg_suspectedH channel_names h_threshold plot_legend) =
     plot_emg_suspectedH self channel_names h_threshold plot_legend"
| "call self (Plot_reflex_curves channel_names) = plot_reflex_curves self channel_names"

fun calls :: "EMGSession \<Rightarrow> method_call list \<Rightarrow> EMGSession" where
  "calls self [] = self"
| "calls self (c # cs) = calls (fst (call self c)) cs"


section \<open>EMG\_Utils.py: the dataset\<close>

record EMGDataset =
  emg_sessions :: "EMGSession list"
  ds_scan_rate :: real
  ds_num_channels :: int
  ds_m_start :: real
  ds_m_end :: real
  ds_h_start :: real
  ds_h_end :: real
  ds_bin_size :: real

text \<open>
  \<^verbatim>\<open>EMGDataset.__init__\<close> reads \<^verbatim>\<open>emg_sessions[0]\<close>, which raises \<^verbatim>\<open>IndexError\<close> on an
  empty list: this is how the construction of a dataset from no session fails.
\<close>

definition EMGDataset_init :: "config \<Rightarrow> EMGSession list \<Rightarrow> error + EMGDataset" where
  "EMGDataset_init cfg sessions =
     (case py_index sessions 0 of
        Inl e \<Rightarrow> Inl e
      | Inr first \<Rightarrow>
          Inr \<lparr> emg_sessions = sessions,
                ds_scan_rate = scan_rate first,
                ds_num_channels = num_channels first,
                ds_m_start = cfg_m_start cfg,
                ds_m_end = cfg_m_end cfg,
                ds_h_start = cfg_h_start cfg,
                ds_h_end = cfg_h_end cfg,
                ds_bin_size = cfg_bin_size cfg \<rparr>)"

text \<open>
  \<^verbatim>\<open>EMGDataset.plot_reflex_curves\<close>, lines 467--471: a local list is extended by the
  recordings of every session and then sorted by stimulus voltage. The dataset object
  has no attribute that keeps the result.
\<close>

definition sorted_recordings :: "EMGDataset \<Rightarrow> recording list" where
  "sorted_recordings self =
     py_sorted stimulus_v (fold (\<lambda>session acc. acc @ recordings session) (emg_sessions self) [])"

text \<open>
  Line 481: the binned voltage of every pooled recording, then
  \<^verbatim>\<open>sorted(list(set(...)))\<close>.
\<close>

fun binned_list :: "recording list \<Rightarrow> real \<Rightarrow> error + real list" where
  "binned_list [] bin_size = Inr []"
| "binned_list (recording # rest) bin_size =
     (case binned_stimulus_v recording bin_size of
        Inl e \<Rightarrow> Inl e
      | Inr b \<Rightarrow>
          (case binned_list rest bin_size of
             Inl e \<Rightarrow> Inl e
           | Inr bs \<Rightarrow> Inr (b # bs)))"

definition stimulus_voltages :: "EMGDataset \<Rightarrow> error + real list" where
  "stimulus_voltages self =
     (case binned_list (sorted_recordings self) (ds_bin_size self) of
        Inl e \<Rightarrow> Inl e
      | Inr bs \<Rightarrow> Inr (sorted_set bs))"

text \<open>
  Lines 484--494: for every channel index in \<^verbatim>\<open>range(num_channels)\<close> and every binned
  voltage, \<^verbatim>\<open>calculate_mean_std\<close> on the pooled recordings; the four results are
  appended to four lists.
\<close>

fun dataset_curve ::
  "EMGDataset \<Rightarrow> recording list \<Rightarrow> int \<Rightarrow> real list \<Rightarrow>
   error + (npfloat list \<times> npfloat list \<times> npfloat list \<times> npfloat list)" where
  "dataset_curve self pooled channel_index [] = Inr ([], [], [], [])"
| "dataset_curve self pooled channel_index (v # rest) =
     (case calculate_mean_std pooled v channel_index (ds_m_start self) (ds_m_end self)
             (ds_h_start self) (ds_h_end self) (ds_bin_size self) (ds_scan_rate self) of
        Inl e \<Rightarrow> Inl e
      | Inr (m_wave_mean, m_wave_std, h_response_mean, h_response_std) \<Rightarrow>
          (case dataset_curve self pooled channel_index rest of
             Inl e \<Rightarrow> Inl e
           | Inr (m_wave_means, m_wave_stds, h_response_means, h_response_stds) \<Rightarrow>
               Inr (m_wave_mean # m_wave_means, m_wave_std # m_wave_stds,
                    h_response_mean # h_response_means, h_response_std # h_response_stds)))"

fun dataset_curves ::
  "EMGDataset \<Rightarrow> recording list \<Rightarrow> real list \<Rightarrow> int list \<Rightarrow>
   error + (npfloat list \<times> npfloat list \<times> npfloat list \<times> npfloat list) list" where
  "dataset_curves self pooled voltages [] = Inr []"
| "dataset_curves self pooled voltages (channel_index # rest) =
     (case dataset_curve self pooled channel_index voltages of
        Inl e \<Rightarrow> Inl e
      | Inr c \<Rightarrow>
          (case dataset_curves self pooled voltages rest of
             Inl e \<Rightarrow> Inl e
           | Inr cs \<Rightarrow> Inr (c # cs)))"

text \<open>
  The method as a whole: the binned voltages and, per channel, the four lists given to
  \<^verbatim>\<open>plot\<close> and \<^verbatim>\<open>fill_between\<close>. The dataset object is not assigned to.
\<close>

definition dataset_plot_reflex_curves ::
  "EMGDataset \<Rightarrow> string list \<Rightarrow>
   EMGDataset \<times> (error + real list \<times> (npfloat list \<times> npfloat list \<times> npfloat list \<times> npfloat list) list)" where
  "dataset_plot_reflex_curves self channel_names =
     (self,
      case stimulus_voltages self of
        Inl e \<Rightarrow> Inl e
      | Inr voltages \<Rightarrow>
          (case dataset_curves self (sorted_recordings self) voltages
                  [0 .. ds_num_channels self - 1] of
             Inl e \<Rightarrow> Inl e
           | Inr cs \<Rightarrow> Inr (voltages, cs)))"


section \<open>Notions of the specification\<close>

text \<open>
  The specification's window: the samples at the positions \<open>i\<close> with
  \<open>floor (start_ms * scan_rate / 1000) \<le> i < floor (end_ms * scan_rate / 1000)\<close>. A
  position below zero or past the end holds no sample, so the window is the sequence
  cut at the upper bound and then at the lower one.
\<close>

definition floor_slice :: "real list \<Rightarrow> real \<Rightarrow> real \<Rightarrow> real \<Rightarrow> real list" where
  "floor_slice samples start_ms end_ms rate =
     drop (nat \<lfloor>start_ms * rate / 1000\<rfloor>) (take (nat \<lfloor>end_ms * rate / 1000\<rfloor>) samples)"

text \<open>
  The same two floor indices read as the bounds of a Python slice
  \<^verbatim>\<open>samples[start_index:end_index]\<close>, as the specification writes the window in its
  component design.
\<close>

definition floor_slice_py :: "real list \<Rightarrow> real \<Rightarrow> real \<Rightarrow> real \<Rightarrow> real list" where
  "floor_slice_py samples start_ms end_ms rate =
     py_slice samples \<lfloor>start_ms * rate / 1000\<rfloor> \<lfloor>end_ms * rate / 1000\<rfloor>"

text \<open>The arithmetic mean of the absolute values of a sequence.\<close>

definition mean_abs :: "real list \<Rightarrow> real" where
  "mean_abs xs = sum_list (map abs xs) / real (length xs)"

text \<open>
  The recordings of a list whose binned stimulus voltage equals a target voltage, in
  their order in the list.
\<close>

definition matching_recordings :: "recording list \<Rightarrow> real \<Rightarrow> real \<Rightarrow> recording list" where
  "matching_recordings recs target bin_size =
     filter (\<lambda>r. binned_stimulus_v r bin_size = Inr target) recs"

text \<open>
  Population mean and population standard deviation of a non-empty sequence of reals:
  the divisor is the number of values.
\<close>

definition population_mean :: "real list \<Rightarrow> real" where
  "population_mean ys = sum_list ys / real (length ys)"

definition population_std :: "real list \<Rightarrow> real" where
  "population_std ys =
     sqrt (sum_list (map (\<lambda>y. (y - population_mean ys)\<^sup>2) ys) / real (length ys))"


section \<open>The binning expression in double precision\<close>

text \<open>
  The test \<^verbatim>\<open>binned_stimulus_v == stimulus_value\<close> of \<^verbatim>\<open>calculate_mean_std\<close> compares two
  floats for equality, so where the voltages are given as decimal literals the outcome
  depends on the rounding of every operation. For this the binning expression is also
  modelled in IEEE 754 double precision: a literal, a quotient and a product are each
  rounded to the nearest double, a tie going to the even significand.

  \<open>binary_exponent\<close> finds the exponent \<open>e\<close> with \<open>2^e \<le> x < 2^(e+1)\<close> of a positive \<open>x\<close>
  by halving or doubling; the exponents of doubles lie between -1074 and 1023, so 1100
  steps are enough. \<open>binary64\<close> rounds the significand to 53 bits. Overflow and
  subnormal numbers are not modelled.
\<close>

fun binary_exponent :: "nat \<Rightarrow> real \<Rightarrow> int" where
  "binary_exponent 0 x = 0"
| "binary_exponent (Suc fuel) x =
     (if 2 \<le> x then binary_exponent fuel (x / 2) + 1
      else if x < 1 then binary_exponent fuel (x * 2) - 1
      else 0)"

definition binary64 :: "real \<Rightarrow> real" where
  "binary64 x =
     (if x = 0 then 0
      else let e = binary_exponent 1100 \<bar>x\<bar>; ulp = 2 powi (e - 52)
           in of_int (py_round (x / ulp)) * ulp)"

text \<open>
  \<^verbatim>\<open>round(recording['stimulus_v'] / bin_size) * bin_size\<close> on doubles: the quotient is
  rounded, \<^verbatim>\<open>round\<close> gives the integer nearest to that double, and the product of the
  integer and the bin size is rounded.
\<close>

definition binned_stimulus_v_binary64 :: "recording \<Rightarrow> real \<Rightarrow> error + real" where
  "binned_stimulus_v_binary64 recording bin_size =
     (if bin_size = 0 then Inl ZeroDivisionError
      else Inr (binary64
                  (of_int (py_round (binary64 (stimulus_v recording / bin_size))) * bin_size)))"

text \<open>
  The loop of \<^verbatim>\<open>calculate_mean_std\<close> and the function itself, with the binning in double
  precision; everything else is as in \<open>amplitudes_loop\<close> and \<open>calculate_mean_std\<close>.
\<close>

fun amplitudes_loop_binary64 ::
  "recording list \<Rightarrow> real \<Rightarrow> int \<Rightarrow> real \<Rightarrow> real \<Rightarrow> real \<Rightarrow> real \<Rightarrow> real \<Rightarrow> real \<Rightarrow>
   npfloat list \<Rightarrow> npfloat list \<Rightarrow> error + (npfloat list \<times> npfloat list)" where
  "amplitudes_loop_binary64 [] stimulus_value channel_index m_start_ms m_end_ms h_start_ms
     h_end_ms bin_size rate m_wave_amplitudes h_response_amplitudes =
     Inr (m_wave_amplitudes, h_response_amplitudes)"
| "amplitudes_loop_binary64 (recording # rest) stimulus_value channel_index m_start_ms
     m_end_ms h_start_ms h_end_ms bin_size rate m_wave_amplitudes h_response_amplitudes =
     (case binned_stimulus_v_binary64 recording bin_size of
        Inl e \<Rightarrow> Inl e
      | Inr b \<Rightarrow>
          if b = stimulus_value then
            (case py_index (channel_data recording) channel_index of
               Inl e \<Rightarrow> Inl e
             | Inr cd \<Rightarrow>
                 amplitudes_loop_binary64 rest stimulus_value channel_index m_start_ms m_end_ms
                   h_start_ms h_end_ms bin_size rate
                   (m_wave_amplitudes @ [calculate_average_amplitude cd m_start_ms m_end_ms rate])
                   (h_response_amplitudes @ [calculate_average_amplitude cd h_start_ms h_end_ms rate]))
          else
            amplitudes_loop_binary64 rest stimulus_value channel_index m_start_ms m_end_ms
              h_start_ms h_end_ms bin_size rate m_wave_amplitudes h_response_amplitudes)"

definition calculate_mean_std_binary64 ::
  "recording list \<Rightarrow> real \<Rightarrow> int \<Rightarrow> real \<Rightarrow> real \<Rightarrow> real \<Rightarrow> real \<Rightarrow> real \<Rightarrow> real \<Rightarrow>
   error + (npfloat \<times> npfloat \<times> npfloat \<times> npfloat)" where
  "calculate_mean_std_binary64 recs stimulus_value channel_index m_start_ms m_end_ms
     h_start_ms h_end_ms bin_size rate =
     (case amplitudes_loop_binary64 recs stimulus_value channel_index m_start_ms m_end_ms
             h_start_ms h_end_ms bin_size rate [] [] of
        Inl e \<Rightarrow> Inl e
      | Inr (m_wave_amplitudes, h_response_amplitudes) \<Rightarrow>
          Inr (np_mean m_wave_amplitudes, np_std m_wave_amplitudes,
               np_mean h_response_amplitudes, np_std h_response_amplitudes))"


section \<open>Example data\<close>

text \<open>
  A small configuration and two small sessions, on which the theorems below are
  instantiated: one channel of four samples at 1000 samples per second, an M window of
  0 to 2 ms (samples 0 and 1) and an H window of 2 to 4 ms (samples 2 and 3).
\<close>

definition example_config :: config where
  "example_config =
     \<lparr> cfg_m_start = 0, cfg_m_end = 2, cfg_h_start = 2, cfg_h_end = 4,
       cfg_time_window = 4, cfg_bin_size = 1 / 20 \<rparr>"

definition example_info :: pickled_info where
  "example_info =
     \<lparr> pk_session_name = ''example'', pk_num_channels = 1, pk_scan_rate = 1000,
       pk_num_samples = 4, pk_stim_duration = 1, pk_stim_interval = 1,
       pk_emg_amp_gains = [1000] \<rparr>"

definition example_r1 :: recording where
  "example_r1 = \<lparr> stimulus_v = 101 / 100, channel_data = [[1, - 3, 2, - 2]] \<rparr>"

definition example_r2 :: recording where
  "example_r2 = \<lparr> stimulus_v = 104 / 100, channel_data = [[3, - 1, 0, 4]] \<rparr>"

definition example_r3 :: recording where
  "example_r3 = \<lparr> stimulus_v = 106 / 100, channel_data = [[- 5, 1, 2, - 6]] \<rparr>"

definition example_short :: recording where
  "example_short = \<lparr> stimulus_v = 21 / 20, channel_data = [[1, 2]] \<rparr>"

definition example_session_a :: EMGSession where
  "example_session_a =
     EMGSession_init example_config
       \<lparr> pk_session_info = example_info, pk_recordings = [example_r3, example_r1] \<rparr>"

definition example_session_b :: EMGSession where
  "example_session_b =
     EMGSession_init example_config
       \<lparr> pk_session_info = example_info, pk_recordings = [example_r2] \<rparr>"

definition example_dataset :: EMGDataset where
  "example_dataset =
     \<lparr> emg_sessions = [example_session_a, example_session_b],
       ds_scan_rate = 1000, ds_num_channels = 1,
       ds_m_start = 0, ds_m_end = 2, ds_h_start = 2, ds_h_end = 4, ds_bin_size = 1 / 20 \<rparr>"


section \<open>Auxiliary facts\<close>

lemma py_int_nonneg: "0 \<le> x \<Longrightarrow> py_int x = \<lfloor>x\<rfloor>"
  by (simp add: py_int_def)

lemma py_slice_nonneg:
  assumes "0 \<le> a" and "0 \<le> b"
  shows "py_slice xs a b = drop (nat a) (take (nat b) xs)"
proof (cases "nat a < length xs")
  case True
  have "take (min (nat b) (length xs) - nat a) (drop (nat a) xs)
        = take (nat b - nat a) (drop (nat a) xs)"
    by (rule nth_equalityI) (auto simp: min_def)
  with True assms show ?thesis
    by (simp add: py_slice_def slice_bound_def Let_def drop_take min_absorb1)
next
  case False
  with assms show ?thesis
    by (simp add: py_slice_def slice_bound_def Let_def min_absorb2)
qed

lemma all_nums_map_Num: "all_nums (map Num ys) = Some ys"
  by (induction ys) simp_all

lemma all_nums_NaN: "NaN \<in> set xs \<Longrightarrow> all_nums xs = None"
  by (induction xs rule: all_nums.induct) auto

lemma sum_list_abs_nonneg: "0 \<le> sum_list (map abs (xs :: real list))"
  by (induction xs) simp_all

lemma average_amplitude_slice:
  "calculate_average_amplitude xs s e sr =
     (let w = py_slice xs (py_int (s * sr / 1000)) (py_int (e * sr / 1000))
      in if w = [] then NaN else Num (mean_abs w))"
  by (simp add: calculate_average_amplitude_def Let_def rectify_emg_def np_mean_def
      all_nums_map_Num mean_abs_def comp_def)

lemma call_fst: "fst (call self c) = self"
  by (cases c) (simp_all add: session_parameters_def plot_emg_def plot_emg_rectified_def
        plot_emg_suspectedH_def plot_reflex_curves_def)

lemma calls_id: "calls self cs = self"
  by (induction cs arbitrary: self) (simp_all add: call_fst)

lemma fold_extend:
  "fold (\<lambda>session acc. acc @ recordings session) ss acc = acc @ concat (map recordings ss)"
  by (induction ss arbitrary: acc) simp_all

lemma fold_max: "fold max xs (x::real) = Max (set (x # xs))"
  by (rule Max.set_eq_fold [symmetric])

lemma fold_min: "fold min xs (x::real) = Min (set (x # xs))"
  by (rule Min.set_eq_fold [symmetric])

lemma amplitudes_loop_matching:
  assumes "bin_size \<noteq> 0"
    and "\<forall>r \<in> set (matching_recordings recs v bin_size). k < length (channel_data r)"
  shows "amplitudes_loop recs v (int k) ms me hs he bin_size sr accm acch =
     Inr (accm @ map (\<lambda>r. calculate_average_amplitude (channel_data r ! k) ms me sr)
                  (matching_recordings recs v bin_size),
          acch @ map (\<lambda>r. calculate_average_amplitude (channel_data r ! k) hs he sr)
                  (matching_recordings recs v bin_size))"
  using assms(2)
proof (induction recs arbitrary: accm acch)
  case Nil
  then show ?case by (simp add: matching_recordings_def)
next
  case (Cons r recs)
  show ?case
  proof (cases "binned_stimulus_v r bin_size = Inr v")
    case True
    with Cons.prems have k: "k < length (channel_data r)"
      and rest: "\<forall>r \<in> set (matching_recordings recs v bin_size). k < length (channel_data r)"
      by (simp_all add: matching_recordings_def)
    from True k Cons.IH [OF rest] show ?thesis
      by (simp add: matching_recordings_def py_index_def)
  next
    case False
    with Cons.prems have rest: "\<forall>r \<in> set (matching_recordings recs v bin_size). k < length (channel_data r)"
      by (simp add: matching_recordings_def)
    from False assms(1) Cons.IH [OF rest] show ?thesis
      by (simp add: matching_recordings_def binned_stimulus_v_def)
  qed
qed

lemma amplitudes_loop_no_match:
  assumes "bin_size \<noteq> 0" and "matching_recordings recs v bin_size = []"
  shows "amplitudes_loop recs v ch ms me hs he bin_size sr accm acch = Inr (accm, acch)"
  using assms(2)
proof (induction recs)
  case Nil
  then show ?case by simp
next
  case (Cons r recs)
  then show ?case using assms(1)
    by (auto simp: matching_recordings_def binned_stimulus_v_def split: if_splits)
qed

lemma amplitudes_loop_length:
  "amplitudes_loop recs v ch ms me hs he bin_size sr accm acch = Inr (m, h) \<Longrightarrow>
     length m = length accm + length (matching_recordings recs v bin_size)
     \<and> length h = length acch + length (matching_recordings recs v bin_size)"
proof (induction recs arbitrary: accm acch)
  case Nil
  then show ?case by (auto simp: matching_recordings_def)
next
  case (Cons r recs)
  then show ?case
    by (fastforce simp: matching_recordings_def split: sum.splits if_splits)
qed

lemma binned_list_member:
  "binned_list recs bin_size = Inr bs \<Longrightarrow> v \<in> set bs \<Longrightarrow>
     \<exists>r \<in> set recs. binned_stimulus_v r bin_size = Inr v"
proof (induction recs arbitrary: bs)
  case Nil
  then show ?case by simp
next
  case (Cons r recs)
  then show ?case by (fastforce split: sum.splits)
qed

lemma np_population:
  "ys \<noteq> [] \<Longrightarrow> np_mean (map Num ys) = Num (population_mean ys)
     \<and> np_std (map Num ys) = Num (population_std ys)"
  by (simp add: np_mean_def np_std_def all_nums_map_Num population_mean_def
      population_std_def Let_def)

lemma example_recordings_a: "recordings example_session_a = [example_r1, example_r3]"
  by (simp add: example_session_a_def EMGSession_init_def load_session_data_def py_sorted_def
      example_r1_def example_r3_def Let_def)

lemma example_recordings_b: "recordings example_session_b = [example_r2]"
  by (simp add: example_session_b_def EMGSession_init_def load_session_data_def py_sorted_def
      Let_def)

lemma example_dataset_init:
  "EMGDataset_init example_config [example_session_a, example_session_b] = Inr example_dataset"
  by (simp add: EMGDataset_init_def py_index_def example_dataset_def example_config_def
      example_session_a_def EMGSession_init_def load_session_data_def example_info_def Let_def)

lemma example_sorted_recordings:
  "sorted_recordings example_dataset = [example_r1, example_r2, example_r3]"
  by (simp add: sorted_recordings_def example_dataset_def example_recordings_a
      example_recordings_b py_sorted_def example_r1_def example_r2_def example_r3_def)

lemma example_binned:
  "binned_stimulus_v example_r1 (1 / 20) = Inr 1"
  "binned_stimulus_v example_r2 (1 / 20) = Inr (21 / 20)"
  "binned_stimulus_v example_r3 (1 / 20) = Inr (21 / 20)"
  by (simp_all add: binned_stimulus_v_def py_round_def example_r1_def example_r2_def
      example_r3_def Let_def)


lemma example_session_a_window:
  "h_start example_session_a = 2" "h_end example_session_a = 4"
  "scan_rate example_session_a = 1000"
  by (simp_all add: example_session_a_def EMGSession_init_def load_session_data_def
      example_config_def example_info_def Let_def)

lemma example_matching:
  "matching_recordings [example_r1, example_r2, example_r3] (21 / 20) (1 / 20)
     = [example_r2, example_r3]"
  by (simp add: matching_recordings_def example_binned)

lemma example_amplitudes:
  "calculate_average_amplitude (channel_data example_r2 ! 0) 0 2 1000 = Num 2"
  "calculate_average_amplitude (channel_data example_r3 ! 0) 0 2 1000 = Num 3"
  "calculate_average_amplitude (channel_data example_r2 ! 0) 2 4 1000 = Num 2"
  "calculate_average_amplitude (channel_data example_r3 ! 0) 2 4 1000 = Num 4"
  by (simp_all add: average_amplitude_slice py_int_def py_slice_def slice_bound_def
      mean_abs_def example_r2_def example_r3_def)

lemma example_population:
  "population_mean [2, 3] = 5 / 2" "population_std [2, 3] = 1 / 2"
  "population_mean [2, 4] = 3" "population_std [2, 4] = 1"
  by (simp_all add: population_mean_def population_std_def power2_eq_square real_sqrt_divide)

lemma example_dataset_fields:
  "ds_bin_size example_dataset = 1 / 20" "ds_scan_rate example_dataset = 1000"
  "ds_m_start example_dataset = 0" "ds_m_end example_dataset = 2"
  "ds_h_start example_dataset = 2" "ds_h_end example_dataset = 4"
  by (simp_all add: example_dataset_def)

lemma example_stimulus_voltages: "stimulus_voltages example_dataset = Inr [1, 21 / 20]"
  unfolding stimulus_voltages_def example_sorted_recordings example_dataset_fields
  by (simp add: example_binned sorted_set_def)

lemma binned_three:
  "binned_stimulus_v \<lparr>stimulus_v = 101 / 100, channel_data = c1\<rparr> (1 / 20) = Inr 1"
  "binned_stimulus_v \<lparr>stimulus_v = 26 / 25, channel_data = c2\<rparr> (1 / 20) = Inr (21 / 20)"
  "binned_stimulus_v \<lparr>stimulus_v = 53 / 50, channel_data = c3\<rparr> (1 / 20) = Inr (21 / 20)"
  by (simp_all add: binned_stimulus_v_def py_round_def Let_def)

lemma mean_std_no_match:
  assumes "bin_size \<noteq> 0" and "matching_recordings recs v bin_size = []"
  shows "calculate_mean_std recs v ch ms me hs he bin_size sr = Inr (NaN, NaN, NaN, NaN)"
  by (simp add: calculate_mean_std_def amplitudes_loop_no_match [OF assms] np_mean_def np_std_def)

lemma np_NaN: "NaN \<in> set xs \<Longrightarrow> np_mean xs = NaN \<and> np_std xs = NaN"
  by (simp add: np_mean_def np_std_def all_nums_NaN)

lemma example_short_binned: "binned_stimulus_v example_short (1 / 20) = Inr (21 / 20)"
  by (simp add: binned_stimulus_v_def py_round_def example_short_def Let_def)

lemma example_short_matching:
  "matching_recordings [example_short] (21 / 20) (1 / 20) = [example_short]"
  by (simp add: matching_recordings_def example_short_binned)

lemma example_short_window:
  "py_slice (channel_data example_short ! 0) (py_int (2 * 1000 / 1000)) (py_int (4 * 1000 / 1000)) = []"
  by (simp add: example_short_def py_slice_def slice_bound_def py_int_def)


lemma binary_exponent_numeral:
  "binary_exponent (numeral k) x =
     (if 2 \<le> x then binary_exponent (pred_numeral k) (x / 2) + 1
      else if x < 1 then binary_exponent (pred_numeral k) (x * 2) - 1
      else 0)"
  by (simp add: numeral_eq_Suc)

lemma binary64_literals:
  "binary64 (101 / 100) = 4548635623644201 / 4503599627370496"
  "binary64 (104 / 100) = 1170935903116329 / 1125899906842624"
  "binary64 (106 / 100) = 2386907802506363 / 2251799813685248"
  "binary64 (105 / 100) = 4728779608739021 / 4503599627370496"
  "binary64 (5 / 100) = 3602879701896397 / 72057594037927936"
  by (simp_all add: binary64_def binary_exponent_numeral py_round_def Let_def power_int_minus)

lemma binned_binary64_three:
  "binned_stimulus_v_binary64 \<lparr>stimulus_v = 4548635623644201 / 4503599627370496, channel_data = c1\<rparr>
     (3602879701896397 / 72057594037927936) = Inr 1"
  "binned_stimulus_v_binary64 \<lparr>stimulus_v = 1170935903116329 / 1125899906842624, channel_data = c2\<rparr>
     (3602879701896397 / 72057594037927936) = Inr (4728779608739021 / 4503599627370496)"
  "binned_stimulus_v_binary64 \<lparr>stimulus_v = 2386907802506363 / 2251799813685248, channel_data = c3\<rparr>
     (3602879701896397 / 72057594037927936) = Inr (4728779608739021 / 4503599627370496)"
  by (simp_all add: binned_stimulus_v_binary64_def binary64_def binary_exponent_numeral
      py_round_def Let_def power_int_minus)

lemma example_mean_std:
  "calculate_mean_std [example_r1, example_r2, example_r3] (21 / 20) 0 0 2 2 4 (1 / 20) 1000
     = Inr (Num (5 / 2), Num (1 / 2), Num 3, Num 1)"
proof -
  have k: "\<forall>r \<in> set (matching_recordings [example_r1, example_r2, example_r3] (21 / 20) (1 / 20)).
         0 < length (channel_data r)"
    unfolding example_matching by (simp add: example_r2_def example_r3_def)
  have p: "np_mean [Num 2, Num 3] = Num (5 / 2)" "np_std [Num 2, Num 3] = Num (1 / 2)"
    "np_mean [Num 2, Num 4] = Num 3" "np_std [Num 2, Num 4] = Num 1"
    using np_population [of "[2, 3]"] np_population [of "[2, 4]"]
    by (simp_all add: example_population)
  have "amplitudes_loop [example_r1, example_r2, example_r3] (21 / 20) 0 0 2 2 4 (1 / 20) 1000 [] []
     = Inr ([Num 2, Num 3], [Num 2, Num 4])"
    using amplitudes_loop_matching [OF _ k, where ms = 0 and me = 2 and hs = 2 and he = 4
        and sr = 1000 and accm = "[]" and acch = "[]"]
    by (simp add: example_matching example_amplitudes)
  then show ?thesis
    by (simp add: calculate_mean_std_def p)
qed

lemma dataset_curve_results:
  "dataset_curve self pooled ch vs = Inr (a, b, c, d) \<Longrightarrow>
     length a = length vs \<and> length b = length vs \<and> length c = length vs \<and> length d = length vs
     \<and> (\<forall>i<length vs.
           calculate_mean_std pooled (vs ! i) ch (ds_m_start self) (ds_m_end self)
             (ds_h_start self) (ds_h_end self) (ds_bin_size self) (ds_scan_rate self)
           = Inr (a ! i, b ! i, c ! i, d ! i))"
proof (induction vs arbitrary: a b c d)
  case Nil
  then show ?case by simp
next
  case (Cons v vs)
  from Cons.prems obtain w x y z a' b' c' d' where
    call: "calculate_mean_std pooled v ch (ds_m_start self) (ds_m_end self)
             (ds_h_start self) (ds_h_end self) (ds_bin_size self) (ds_scan_rate self)
           = Inr (w, x, y, z)"
    and rest: "dataset_curve self pooled ch vs = Inr (a', b', c', d')"
    and eqs: "a = w # a'" "b = x # b'" "c = y # c'" "d = z # d'"
    by (auto split: sum.splits)
  from Cons.IH [OF rest] call eqs show ?case
    by (auto simp: nth_Cons')
qed

lemma dataset_curve_error:
  "dataset_curve self pooled ch vs = Inl e \<Longrightarrow>
     \<exists>v \<in> set vs. calculate_mean_std pooled v ch (ds_m_start self) (ds_m_end self)
             (ds_h_start self) (ds_h_end self) (ds_bin_size self) (ds_scan_rate self) = Inl e"
  by (induction vs) (auto split: sum.splits)

lemma dataset_curves_results:
  "dataset_curves self pooled vs chs = Inr cs \<Longrightarrow>
     length cs = length chs
     \<and> (\<forall>k<length chs. dataset_curve self pooled (chs ! k) vs = Inr (cs ! k))"
proof (induction chs arbitrary: cs)
  case Nil
  then show ?case by simp
next
  case (Cons ch chs)
  from Cons.prems obtain c cs' where
    "dataset_curve self pooled ch vs = Inr c" "dataset_curves self pooled vs chs = Inr cs'"
    "cs = c # cs'"
    by (auto split: sum.splits)
  with Cons.IH [of cs'] show ?case
    by (auto simp: nth_Cons')
qed

lemma dataset_curves_error:
  "dataset_curves self pooled vs chs = Inl e \<Longrightarrow>
     \<exists>ch \<in> set chs. dataset_curve self pooled ch vs = Inl e"
  by (induction chs) (auto split: sum.splits)

lemma calculate_mean_std_results:
  "calculate_mean_std recs v ch ms me hs he bin sr = Inr (w, x, y, z) \<Longrightarrow>
     \<exists>m h. amplitudes_loop recs v ch ms me hs he bin sr [] [] = Inr (m, h)
       \<and> w = np_mean m \<and> x = np_std m \<and> y = np_mean h \<and> z = np_std h"
  by (auto simp: calculate_mean_std_def split: sum.splits)

lemma stimulus_voltages_match:
  assumes "stimulus_voltages self = Inr voltages" and "v \<in> set voltages"
  shows "matching_recordings (sorted_recordings self) v (ds_bin_size self) \<noteq> []"
proof -
  from assms obtain bs where bs: "binned_list (sorted_recordings self) (ds_bin_size self) = Inr bs"
    and v: "v \<in> set bs"
    by (auto simp: stimulus_voltages_def sorted_set_def split: sum.splits)
  from binned_list_member [OF bs v] show ?thesis
    by (auto simp: matching_recordings_def filter_empty_conv)
qed

lemma example_matching_low:
  "matching_recordings [example_r1, example_r2, example_r3] 1 (1 / 20) = [example_r1]"
  by (simp add: matching_recordings_def example_binned)

lemma example_amplitudes_low:
  "calculate_average_amplitude (channel_data example_r1 ! 0) 0 2 1000 = Num 2"
  "calculate_average_amplitude (channel_data example_r1 ! 0) 2 4 1000 = Num 2"
  by (simp_all add: average_amplitude_slice py_int_def py_slice_def slice_bound_def
      mean_abs_def example_r1_def)

lemma example_mean_std_low:
  "calculate_mean_std [example_r1, example_r2, example_r3] 1 0 0 2 2 4 (1 / 20) 1000
     = Inr (Num 2, Num 0, Num 2, Num 0)"
proof -
  have k: "\<forall>r \<in> set (matching_recordings [example_r1, example_r2, example_r3] 1 (1 / 20)).
         0 < length (channel_data r)"
    unfolding example_matching_low by (simp add: example_r1_def)
  have "amplitudes_loop [example_r1, example_r2, example_r3] 1 0 0 2 2 4 (1 / 20) 1000 [] []
     = Inr ([Num 2], [Num 2])"
    using amplitudes_loop_matching [OF _ k, where ms = 0 and me = 2 and hs = 2 and he = 4
        and sr = 1000 and accm = "[]" and acch = "[]"]
    by (simp add: example_matching_low example_amplitudes_low)
  then show ?thesis
    by (simp add: calculate_mean_std_def np_mean_def np_std_def)
qed

lemma example_channel_1: "py_index (channel_data example_r1) 1 = Inl IndexError"
  by (simp add: py_index_def example_r1_def)

lemma example_mean_std_channel_1:
  "calculate_mean_std [example_r1, example_r2, example_r3] 1 1 0 2 2 4 (1 / 20) 1000
     = Inl IndexError"
  by (simp add: calculate_mean_std_def example_binned example_channel_1)

lemma example_plot:
  "snd (dataset_plot_reflex_curves example_dataset [])
     = Inr ([1, 21 / 20],
            [([Num 2, Num (5 / 2)], [Num 0, Num (1 / 2)], [Num 2, Num 3], [Num 0, Num 1])])"
  unfolding dataset_plot_reflex_curves_def example_stimulus_voltages example_sorted_recordings
  by (simp add: example_dataset_fields example_mean_std example_mean_std_low
      example_dataset_def upto.simps)


lemma example_wide:
  "stimulus_voltages (example_dataset\<lparr>ds_num_channels := 2\<rparr>) = Inr [1, 21 / 20]"
  "sorted_recordings (example_dataset\<lparr>ds_num_channels := 2\<rparr>)
     = [example_r1, example_r2, example_r3]"
  using example_stimulus_voltages example_sorted_recordings
  by (simp_all add: stimulus_voltages_def sorted_recordings_def)

lemma example_wide_plot:
  "snd (dataset_plot_reflex_curves (example_dataset\<lparr>ds_num_channels := 2\<rparr>) [])
     = Inl IndexError"
  unfolding dataset_plot_reflex_curves_def example_wide
  by (simp add: example_dataset_fields example_mean_std example_mean_std_low
      example_mean_std_channel_1 upto.simps)

lemma example_zero_bin:
  "stimulus_voltages (example_dataset\<lparr>ds_bin_size := 0\<rparr>) = Inl ZeroDivisionError"
  using example_sorted_recordings
  by (simp add: stimulus_voltages_def sorted_recordings_def binned_stimulus_v_def)

section \<open>The session\<close>

text \<open>
  Claim C1. For every valid session record, whatever the order of its recordings, the
  recordings of the loaded session are sorted ascending by stimulus voltage, they are
  the recordings of the record, and recordings of equal stimulus voltage keep their
  relative order (the sort is stable). No sequence of calls of the session's methods
  changes the recordings, so the order established at load time is an invariant of the
  object.
\<close>

theorem session_recordings_sorted_stable_invariant:
  "sorted (map stimulus_v (recordings (EMGSession_init cfg d)))
   \<and> mset (recordings (EMGSession_init cfg d)) = mset (pk_recordings d)
   \<and> (\<forall>v. filter (\<lambda>r. stimulus_v r = v) (recordings (EMGSession_init cfg d))
          = filter (\<lambda>r. stimulus_v r = v) (pk_recordings d))
   \<and> recordings (calls (EMGSession_init cfg d) cs) = recordings (EMGSession_init cfg d)"
  by (simp add: calls_id EMGSession_init_def load_session_data_def py_sorted_def
      sort_key_stable Let_def)

text \<open>
  Claim C8. For a channel of a recording, the test of \<^verbatim>\<open>plot_emg_suspectedH\<close> takes the
  raw samples of the H window. When the window is empty the test raises
  \<^verbatim>\<open>ValueError\<close>; otherwise it is true exactly when the largest sample of the window
  minus the smallest exceeds the threshold.
\<close>

theorem suspected_h_range_exceeds_threshold:
  assumes "k < length (channel_data r)"
    and "w = py_slice (channel_data r ! k) (py_int (h_start self * scan_rate self / 1000))
                 (py_int (h_end self * scan_rate self / 1000))"
  shows "h_window self r (int k) = Inr w
    \<and> (w = [] \<longrightarrow> suspected_h self r (int k) thr = Inl ValueError)
    \<and> (w \<noteq> [] \<longrightarrow> suspected_h self r (int k) thr = Inr (thr < Max (set w) - Min (set w)))"
proof -
  have h: "h_window self r (int k) = Inr w"
    using assms by (simp add: h_window_def py_index_def)
  show ?thesis
  proof (cases w)
    case Nil
    then show ?thesis using h by (simp add: suspected_h_def)
  next
    case (Cons x xs)
    then show ?thesis using h
      by (simp add: suspected_h_def fold_max fold_min del: set_simps)
  qed
qed


theorem suspected_h_range_exceeds_threshold_witness:
  "(0 < length (channel_data example_r1)
    \<and> py_slice (channel_data example_r1 ! 0)
         (py_int (h_start example_session_a * scan_rate example_session_a / 1000))
         (py_int (h_end example_session_a * scan_rate example_session_a / 1000)) = [2, - 2]
    \<and> suspected_h example_session_a example_r1 (int 0) 3 = Inr True
    \<and> suspected_h example_session_a example_r1 (int 0) 4 = Inr False)
   \<and> (0 < length (channel_data example_short)
    \<and> py_slice (channel_data example_short ! 0)
         (py_int (h_start example_session_a * scan_rate example_session_a / 1000))
         (py_int (h_end example_session_a * scan_rate example_session_a / 1000)) = []
    \<and> suspected_h example_session_a example_short (int 0) 3 = Inl ValueError)"
proof -
  have w1: "py_slice (channel_data example_r1 ! 0)
         (py_int (h_start example_session_a * scan_rate example_session_a / 1000))
         (py_int (h_end example_session_a * scan_rate example_session_a / 1000)) = [2, - 2]"
    by (simp add: example_session_a_window example_r1_def py_slice_def slice_bound_def py_int_def)
  have w2: "py_slice (channel_data example_short ! 0)
         (py_int (h_start example_session_a * scan_rate example_session_a / 1000))
         (py_int (h_end example_session_a * scan_rate example_session_a / 1000)) = []"
    unfolding example_session_a_window by (rule example_short_window)
  have k1: "0 < length (channel_data example_r1)" by (simp add: example_r1_def)
  have k2: "0 < length (channel_data example_short)" by (simp add: example_short_def)
  show ?thesis
    using suspected_h_range_exceeds_threshold [OF k1 w1 [symmetric], of 3]
      suspected_h_range_exceeds_threshold [OF k1 w1 [symmetric], of 4]
      suspected_h_range_exceeds_threshold [OF k2 w2 [symmetric], of 3] k1 k2 w1 w2
    by simp
qed

text \<open>
  Claim C9. Rectifying a rectified sequence gives the rectified sequence, sample by
  sample.
\<close>

theorem rectify_emg_idempotent: "rectify_emg (rectify_emg x) = rectify_emg x"
  by (simp add: rectify_emg_def)


section \<open>The dataset\<close>

text \<open>
  Claim C6. Building a dataset from an empty list of sessions fails: reading
  \<^verbatim>\<open>emg_sessions[0]\<close> raises \<^verbatim>\<open>IndexError\<close>, the code's form of the specification's
  \<open>EmptyDatasetError\<close>. From a list with a first session the construction succeeds, keeps
  the list, and takes the scan rate and the number of channels from the first session.
\<close>

theorem dataset_init_empty_fails_nonempty_takes_first:
  "EMGDataset_init cfg [] = Inl IndexError
   \<and> (\<exists>ds. EMGDataset_init cfg (s # rest) = Inr ds
          \<and> ds_scan_rate ds = scan_rate s \<and> ds_num_channels ds = num_channels s
          \<and> emg_sessions ds = s # rest)"
  by (simp add: EMGDataset_init_def py_index_def)

text \<open>
  Claim C7. For a dataset built from a list of sessions, the pooled recordings are the
  concatenation of the sessions' recordings sorted by stimulus voltage: ascending, with
  the same recordings, those of equal voltage in their order in the concatenation
  (stable). Their number is the sum of the sessions' numbers of recordings. The pooling
  is a function of the sessions the dataset holds at the call: the method leaves the
  dataset as it was, and after the sessions are replaced the pooling is that of the new
  sessions.
\<close>

theorem pooled_recordings_sorted_concat:
  assumes "EMGDataset_init cfg ss = Inr ds"
  shows "sorted_recordings ds = py_sorted stimulus_v (concat (map recordings ss))
    \<and> sorted (map stimulus_v (sorted_recordings ds))
    \<and> mset (sorted_recordings ds) = mset (concat (map recordings ss))
    \<and> (\<forall>v. filter (\<lambda>r. stimulus_v r = v) (sorted_recordings ds)
           = filter (\<lambda>r. stimulus_v r = v) (concat (map recordings ss)))
    \<and> length (sorted_recordings ds) = sum_list (map (\<lambda>s. length (recordings s)) ss)
    \<and> fst (dataset_plot_reflex_curves ds names) = ds
    \<and> sorted_recordings (ds\<lparr>emg_sessions := ss'\<rparr>)
        = py_sorted stimulus_v (concat (map recordings ss'))"
proof -
  from assms have e: "emg_sessions ds = ss"
    by (auto simp: EMGDataset_init_def split: sum.splits)
  show ?thesis
    by (simp add: e sorted_recordings_def fold_extend py_sorted_def sort_key_stable
        length_concat comp_def dataset_plot_reflex_curves_def)
qed

theorem pooled_recordings_sorted_concat_witness:
  "EMGDataset_init example_config [example_session_a, example_session_b] = Inr example_dataset
   \<and> length (sorted_recordings example_dataset)
       = sum_list (map (\<lambda>s. length (recordings s)) [example_session_a, example_session_b])
   \<and> sorted_recordings example_dataset = [example_r1, example_r2, example_r3]"
proof -
  have "length (sorted_recordings example_dataset)
       = sum_list (map (\<lambda>s. length (recordings s)) [example_session_a, example_session_b])"
    using pooled_recordings_sorted_concat [OF example_dataset_init, of "[]" "[]"] by blast
  then show ?thesis
    using example_dataset_init example_sorted_recordings by blast
qed


text \<open>
  Claim C10. \<^verbatim>\<open>EMGDataset.plot_reflex_curves\<close> first computes the binned voltages of
  the pooled recordings with the dataset's bin size; when that fails, the method fails
  and \<^verbatim>\<open>calculate_mean_std\<close> is not called. Otherwise:

  \<^item> every one of these voltages is the binned voltage of at least one pooled recording,
    so the loop of \<^verbatim>\<open>calculate_mean_std\<close> on the pooled recordings, such a voltage and
    the dataset's bin size never returns an empty amplitude list, whatever the channel;
  \<^item> when the method returns, it returns these voltages and one curve per channel, and
    the entry of channel \<open>k\<close> at voltage number \<open>i\<close> is the result of
    \<^verbatim>\<open>calculate_mean_std\<close> on the pooled recordings, that voltage, channel \<open>k\<close> and the
    dataset's windows, bin size and scan rate: the mean and standard deviation of two
    non-empty amplitude lists;
  \<^item> when the method raises, the exception is that of such a call, for one of these
    voltages and a channel index below the number of channels.

  So the mean and standard deviation of an empty list are never taken on this path.
\<close>

theorem dataset_targets_always_match:
  "(\<forall>e. stimulus_voltages self = Inl e \<longrightarrow> snd (dataset_plot_reflex_curves self names) = Inl e)
   \<and> (\<forall>voltages. stimulus_voltages self = Inr voltages \<longrightarrow>
        (\<forall>v \<in> set voltages.
            matching_recordings (sorted_recordings self) v (ds_bin_size self) \<noteq> []
          \<and> (\<forall>ch m h. amplitudes_loop (sorted_recordings self) v ch (ds_m_start self)
                 (ds_m_end self) (ds_h_start self) (ds_h_end self) (ds_bin_size self)
                 (ds_scan_rate self) [] [] = Inr (m, h)
               \<longrightarrow> m \<noteq> [] \<and> h \<noteq> []))
      \<and> (\<forall>vs curves. snd (dataset_plot_reflex_curves self names) = Inr (vs, curves) \<longrightarrow>
            vs = voltages \<and> length curves = nat (ds_num_channels self)
          \<and> (\<forall>k<length curves. \<forall>i<length voltages.
                \<exists>mm ms hm hs m h.
                  curves ! k = (mm, ms, hm, hs)
                \<and> calculate_mean_std (sorted_recordings self) (voltages ! i) (int k)
                     (ds_m_start self) (ds_m_end self) (ds_h_start self) (ds_h_end self)
                     (ds_bin_size self) (ds_scan_rate self)
                   = Inr (mm ! i, ms ! i, hm ! i, hs ! i)
                \<and> amplitudes_loop (sorted_recordings self) (voltages ! i) (int k)
                     (ds_m_start self) (ds_m_end self) (ds_h_start self) (ds_h_end self)
                     (ds_bin_size self) (ds_scan_rate self) [] [] = Inr (m, h)
                \<and> m \<noteq> [] \<and> h \<noteq> []
                \<and> mm ! i = np_mean m \<and> ms ! i = np_std m
                \<and> hm ! i = np_mean h \<and> hs ! i = np_std h))
      \<and> (\<forall>e. snd (dataset_plot_reflex_curves self names) = Inl e \<longrightarrow>
            (\<exists>k v. 0 \<le> k \<and> k < ds_num_channels self \<and> v \<in> set voltages
               \<and> calculate_mean_std (sorted_recordings self) v k
                    (ds_m_start self) (ds_m_end self) (ds_h_start self) (ds_h_end self)
                    (ds_bin_size self) (ds_scan_rate self) = Inl e)))"
proof (intro conjI allI impI)
  fix e assume "stimulus_voltages self = Inl e"
  then show "snd (dataset_plot_reflex_curves self names) = Inl e"
    by (simp add: dataset_plot_reflex_curves_def)
next
  fix voltages assume sv: "stimulus_voltages self = Inr voltages"
  show "\<forall>v \<in> set voltages.
            matching_recordings (sorted_recordings self) v (ds_bin_size self) \<noteq> []
          \<and> (\<forall>ch m h. amplitudes_loop (sorted_recordings self) v ch (ds_m_start self)
                 (ds_m_end self) (ds_h_start self) (ds_h_end self) (ds_bin_size self)
                 (ds_scan_rate self) [] [] = Inr (m, h)
               \<longrightarrow> m \<noteq> [] \<and> h \<noteq> [])"
    using stimulus_voltages_match [OF sv] amplitudes_loop_length by fastforce
next
  fix voltages vs curves
  assume sv: "stimulus_voltages self = Inr voltages"
    and out: "snd (dataset_plot_reflex_curves self names) = Inr (vs, curves)"
  then show "vs = voltages"
    by (auto simp: dataset_plot_reflex_curves_def split: sum.splits)
next
  fix voltages vs curves
  assume sv: "stimulus_voltages self = Inr voltages"
    and out: "snd (dataset_plot_reflex_curves self names) = Inr (vs, curves)"
  then have "dataset_curves self (sorted_recordings self) voltages [0 .. ds_num_channels self - 1]
             = Inr curves"
    by (auto simp: dataset_plot_reflex_curves_def split: sum.splits)
  from dataset_curves_results [OF this] show "length curves = nat (ds_num_channels self)"
    by simp
next
  fix voltages vs curves k i
  assume sv: "stimulus_voltages self = Inr voltages"
    and out: "snd (dataset_plot_reflex_curves self names) = Inr (vs, curves)"
    and k: "k < length curves" and i: "i < length voltages"
  from sv out
  have "dataset_curves self (sorted_recordings self) voltages [0 .. ds_num_channels self - 1]
             = Inr curves"
    by (auto simp: dataset_plot_reflex_curves_def split: sum.splits)
  from dataset_curves_results [OF this] k
  have each: "dataset_curve self (sorted_recordings self) (int k) voltages = Inr (curves ! k)"
    by simp
  obtain mm ms hm hs where c: "curves ! k = (mm, ms, hm, hs)"
    by (cases "curves ! k") auto
  from each c
  have "dataset_curve self (sorted_recordings self) (int k) voltages = Inr (mm, ms, hm, hs)"
    by simp
  from dataset_curve_results [OF this] i
  have call: "calculate_mean_std (sorted_recordings self) (voltages ! i) (int k)
                   (ds_m_start self) (ds_m_end self) (ds_h_start self) (ds_h_end self)
                   (ds_bin_size self) (ds_scan_rate self)
                 = Inr (mm ! i, ms ! i, hm ! i, hs ! i)"
    by blast
  from calculate_mean_std_results [OF call] obtain m h where
    loop: "amplitudes_loop (sorted_recordings self) (voltages ! i) (int k)
                   (ds_m_start self) (ds_m_end self) (ds_h_start self) (ds_h_end self)
                   (ds_bin_size self) (ds_scan_rate self) [] [] = Inr (m, h)"
    and st: "mm ! i = np_mean m" "ms ! i = np_std m" "hm ! i = np_mean h" "hs ! i = np_std h"
    by blast
  from i have "voltages ! i \<in> set voltages" by simp
  from stimulus_voltages_match [OF sv this] amplitudes_loop_length [OF loop]
  have "m \<noteq> []" "h \<noteq> []" by auto
  with c call loop st
  show "\<exists>mm ms hm hs m h.
                curves ! k = (mm, ms, hm, hs)
              \<and> calculate_mean_std (sorted_recordings self) (voltages ! i) (int k)
                   (ds_m_start self) (ds_m_end self) (ds_h_start self) (ds_h_end self)
                   (ds_bin_size self) (ds_scan_rate self)
                 = Inr (mm ! i, ms ! i, hm ! i, hs ! i)
              \<and> amplitudes_loop (sorted_recordings self) (voltages ! i) (int k)
                   (ds_m_start self) (ds_m_end self) (ds_h_start self) (ds_h_end self)
                   (ds_bin_size self) (ds_scan_rate self) [] [] = Inr (m, h)
              \<and> m \<noteq> [] \<and> h \<noteq> []
              \<and> mm ! i = np_mean m \<and> ms ! i = np_std m
              \<and> hm ! i = np_mean h \<and> hs ! i = np_std h"
    by blast
next
  fix voltages e
  assume sv: "stimulus_voltages self = Inr voltages"
    and out: "snd (dataset_plot_reflex_curves self names) = Inl e"
  from sv out
  have "dataset_curves self (sorted_recordings self) voltages [0 .. ds_num_channels self - 1] = Inl e"
    by (auto simp: dataset_plot_reflex_curves_def split: sum.splits)
  from dataset_curves_error [OF this] obtain k where
    k: "k \<in> set [0 .. ds_num_channels self - 1]"
    and "dataset_curve self (sorted_recordings self) k voltages = Inl e"
    by blast
  from dataset_curve_error [OF this(2)] k
  show "\<exists>k v. 0 \<le> k \<and> k < ds_num_channels self \<and> v \<in> set voltages
               \<and> calculate_mean_std (sorted_recordings self) v k
                    (ds_m_start self) (ds_m_end self) (ds_h_start self) (ds_h_end self)
                    (ds_bin_size self) (ds_scan_rate self) = Inl e"
    by auto
qed


theorem dataset_targets_always_match_witness:
  "stimulus_voltages example_dataset = Inr [1, 21 / 20]
   \<and> snd (dataset_plot_reflex_curves example_dataset [])
       = Inr ([1, 21 / 20],
              [([Num 2, Num (5 / 2)], [Num 0, Num (1 / 2)], [Num 2, Num 3], [Num 0, Num 1])])
   \<and> matching_recordings (sorted_recordings example_dataset) (21 / 20)
        (ds_bin_size example_dataset) = [example_r2, example_r3]
   \<and> (\<exists>m h. amplitudes_loop (sorted_recordings example_dataset) ([1, 21 / 20] ! 1) (int 0)
        (ds_m_start example_dataset) (ds_m_end example_dataset) (ds_h_start example_dataset)
        (ds_h_end example_dataset) (ds_bin_size example_dataset) (ds_scan_rate example_dataset)
        [] [] = Inr (m, h) \<and> m \<noteq> [] \<and> h \<noteq> [] \<and> np_mean m = Num (5 / 2))
   \<and> stimulus_voltages (example_dataset\<lparr>ds_num_channels := 2\<rparr>) = Inr [1, 21 / 20]
   \<and> snd (dataset_plot_reflex_curves (example_dataset\<lparr>ds_num_channels := 2\<rparr>) [])
       = Inl IndexError
   \<and> (\<exists>k v. 0 \<le> k \<and> k < ds_num_channels (example_dataset\<lparr>ds_num_channels := 2\<rparr>)
         \<and> v \<in> set [1, 21 / 20 :: real]
         \<and> calculate_mean_std (sorted_recordings (example_dataset\<lparr>ds_num_channels := 2\<rparr>)) v k
              (ds_m_start (example_dataset\<lparr>ds_num_channels := 2\<rparr>))
              (ds_m_end (example_dataset\<lparr>ds_num_channels := 2\<rparr>))
              (ds_h_start (example_dataset\<lparr>ds_num_channels := 2\<rparr>))
              (ds_h_end (example_dataset\<lparr>ds_num_channels := 2\<rparr>))
              (ds_bin_size (example_dataset\<lparr>ds_num_channels := 2\<rparr>))
              (ds_scan_rate (example_dataset\<lparr>ds_num_channels := 2\<rparr>)) = Inl IndexError)
   \<and> stimulus_voltages (example_dataset\<lparr>ds_bin_size := 0\<rparr>) = Inl ZeroDivisionError
   \<and> snd (dataset_plot_reflex_curves (example_dataset\<lparr>ds_bin_size := 0\<rparr>) [])
       = Inl ZeroDivisionError"
proof -
  note ok = dataset_targets_always_match [of example_dataset "[]"]
  note wide = dataset_targets_always_match [of "example_dataset\<lparr>ds_num_channels := 2\<rparr>" "[]"]
  note zero = dataset_targets_always_match [of "example_dataset\<lparr>ds_bin_size := 0\<rparr>" "[]"]
  have m: "matching_recordings (sorted_recordings example_dataset) (21 / 20)
        (ds_bin_size example_dataset) = [example_r2, example_r3]"
    unfolding example_sorted_recordings example_dataset_fields by (rule example_matching)
  have "\<exists>mm ms hm hs m h.
          [([Num 2, Num (5 / 2)], [Num 0, Num (1 / 2)], [Num 2, Num 3], [Num 0, Num 1])] ! 0
            = (mm, ms, hm, hs)
        \<and> calculate_mean_std (sorted_recordings example_dataset) ([1, 21 / 20] ! 1) (int 0)
            (ds_m_start example_dataset) (ds_m_end example_dataset) (ds_h_start example_dataset)
            (ds_h_end example_dataset) (ds_bin_size example_dataset) (ds_scan_rate example_dataset)
            = Inr (mm ! 1, ms ! 1, hm ! 1, hs ! 1)
        \<and> amplitudes_loop (sorted_recordings example_dataset) ([1, 21 / 20] ! 1) (int 0)
            (ds_m_start example_dataset) (ds_m_end example_dataset) (ds_h_start example_dataset)
            (ds_h_end example_dataset) (ds_bin_size example_dataset) (ds_scan_rate example_dataset)
            [] [] = Inr (m, h)
        \<and> m \<noteq> [] \<and> h \<noteq> []
        \<and> mm ! 1 = np_mean m \<and> ms ! 1 = np_std m \<and> hm ! 1 = np_mean h \<and> hs ! 1 = np_std h"
    using ok example_stimulus_voltages example_plot by force
  then have a: "\<exists>m h. amplitudes_loop (sorted_recordings example_dataset) ([1, 21 / 20] ! 1) (int 0)
        (ds_m_start example_dataset) (ds_m_end example_dataset) (ds_h_start example_dataset)
        (ds_h_end example_dataset) (ds_bin_size example_dataset) (ds_scan_rate example_dataset)
        [] [] = Inr (m, h) \<and> m \<noteq> [] \<and> h \<noteq> [] \<and> np_mean m = Num (5 / 2)"
    by auto
  have w: "\<exists>k v. 0 \<le> k \<and> k < ds_num_channels (example_dataset\<lparr>ds_num_channels := 2\<rparr>)
         \<and> v \<in> set [1, 21 / 20 :: real]
         \<and> calculate_mean_std (sorted_recordings (example_dataset\<lparr>ds_num_channels := 2\<rparr>)) v k
              (ds_m_start (example_dataset\<lparr>ds_num_channels := 2\<rparr>))
              (ds_m_end (example_dataset\<lparr>ds_num_channels := 2\<rparr>))
              (ds_h_start (example_dataset\<lparr>ds_num_channels := 2\<rparr>))
              (ds_h_end (example_dataset\<lparr>ds_num_channels := 2\<rparr>))
              (ds_bin_size (example_dataset\<lparr>ds_num_channels := 2\<rparr>))
              (ds_scan_rate (example_dataset\<lparr>ds_num_channels := 2\<rparr>)) = Inl IndexError"
    using wide example_wide(1) example_wide_plot by blast
  have z: "snd (dataset_plot_reflex_curves (example_dataset\<lparr>ds_bin_size := 0\<rparr>) [])
       = Inl ZeroDivisionError"
    using zero example_zero_bin by blast
  show ?thesis
    using example_stimulus_voltages example_plot m a example_wide(1) example_wide_plot w
      example_zero_bin z
    by blast
qed


section \<open>The amplitude calculator\<close>

text \<open>
  Claim C2, as amended. For non-negative \<open>start_ms\<close> and \<open>end_ms\<close> and a positive scan
  rate such that the window between the two floor indices is not empty,
  \<^verbatim>\<open>calculate_average_amplitude\<close> returns the arithmetic mean of the absolute values of
  that window, and the mean is not negative. (The code truncates toward zero, which is
  the floor on non-negative values only.)
\<close>

theorem average_amplitude_is_mean_abs_of_floor_slice:
  assumes "0 \<le> start_ms" and "0 \<le> end_ms" and "0 < rate"
    and "floor_slice xs start_ms end_ms rate \<noteq> []"
  shows "calculate_average_amplitude xs start_ms end_ms rate
           = Num (mean_abs (floor_slice xs start_ms end_ms rate))
       \<and> 0 \<le> mean_abs (floor_slice xs start_ms end_ms rate)"
proof -
  have a: "0 \<le> start_ms * rate / 1000" and b: "0 \<le> end_ms * rate / 1000"
    using assms by simp_all
  have "py_slice xs (py_int (start_ms * rate / 1000)) (py_int (end_ms * rate / 1000))
        = floor_slice xs start_ms end_ms rate"
    using a b by (simp add: py_int_nonneg py_slice_nonneg floor_slice_def)
  then show ?thesis using assms(4)
    by (simp add: average_amplitude_slice mean_abs_def sum_list_abs_nonneg Let_def)
qed

theorem average_amplitude_is_mean_abs_of_floor_slice_witness:
  "(0::real) \<le> 0 \<and> (0::real) \<le> 2 \<and> (0::real) < 1000
   \<and> floor_slice [1, - 3, 2, - 2] 0 2 1000 = [1, - 3]
   \<and> calculate_average_amplitude [1, - 3, 2, - 2] 0 2 1000
       = Num (mean_abs (floor_slice [1, - 3, 2, - 2] 0 2 1000))
   \<and> mean_abs (floor_slice [1, - 3, 2, - 2] 0 2 1000) = 2"
proof -
  have f: "floor_slice [1, - 3, 2, - 2] 0 2 1000 = [1, - 3]"
    by (simp add: floor_slice_def)
  then have n: "floor_slice [1, - 3, 2, - 2] 0 2 1000 \<noteq> []"
    by simp
  have "calculate_average_amplitude [1, - 3, 2, - 2] 0 2 1000
       = Num (mean_abs (floor_slice [1, - 3, 2, - 2] 0 2 1000))"
    using average_amplitude_is_mean_abs_of_floor_slice [OF _ _ _ n] by simp
  then show ?thesis using f by (simp add: mean_abs_def)
qed

text \<open>
  Claim C2 as stated fails for a negative start time. With the samples \<open>[1, 2, 3]\<close>,
  \<open>start_ms = -1.5\<close>, \<open>end_ms = 3\<close> and 1000 samples per second, the floor indices are
  \<open>-2\<close> and \<open>3\<close>: the window is the whole sequence (mean 2), or \<open>[2, 3]\<close> when \<open>-2\<close> is read
  as a Python slice bound (mean 2.5). The code truncates \<open>-1.5\<close> to \<open>-1\<close>, takes the slice
  \<open>[3]\<close> and returns 3.
\<close>

theorem average_amplitude_negative_start_counterexample:
  "(0::real) < 1000
   \<and> floor_slice [1, 2, 3] (- 3 / 2) 3 1000 \<noteq> []
   \<and> calculate_average_amplitude [1, 2, 3] (- 3 / 2) 3 1000
       \<noteq> Num (mean_abs (floor_slice [1, 2, 3] (- 3 / 2) 3 1000))
   \<and> floor_slice_py [1, 2, 3] (- 3 / 2) 3 1000 \<noteq> []
   \<and> calculate_average_amplitude [1, 2, 3] (- 3 / 2) 3 1000
       \<noteq> Num (mean_abs (floor_slice_py [1, 2, 3] (- 3 / 2) 3 1000))
   \<and> floor_slice [1, 2, 3] (- 3 / 2) 3 1000 = [1, 2, 3]
   \<and> floor_slice_py [1, 2, 3] (- 3 / 2) 3 1000 = [2, 3]
   \<and> calculate_average_amplitude [1, 2, 3] (- 3 / 2) 3 1000 = Num 3"
  by (simp add: floor_slice_def floor_slice_py_def average_amplitude_slice py_slice_def
      slice_bound_def py_int_def mean_abs_def Let_def)

text \<open>
  Claim C3. Let the matching set be the recordings whose binned stimulus voltage equals
  the target, and let the channel index be valid for each of them. Then
  \<^verbatim>\<open>calculate_mean_std\<close> returns \<^verbatim>\<open>np.mean\<close> and \<^verbatim>\<open>np.std\<close> of the M-window amplitudes
  and of the H-window amplitudes of exactly the matching recordings, in their order; and
  when these amplitudes are numbers, the four results are their population mean and
  population standard deviation, with the number of matching recordings as divisor.
\<close>

theorem mean_std_is_population_statistics_of_matching:
  assumes "bin_size \<noteq> 0"
    and "\<forall>r \<in> set (matching_recordings recs v bin_size). k < length (channel_data r)"
    and "M = map (\<lambda>r. calculate_average_amplitude (channel_data r ! k) ms me sr)
               (matching_recordings recs v bin_size)"
    and "H = map (\<lambda>r. calculate_average_amplitude (channel_data r ! k) hs he sr)
               (matching_recordings recs v bin_size)"
  shows "calculate_mean_std recs v (int k) ms me hs he bin_size sr
           = Inr (np_mean M, np_std M, np_mean H, np_std H)
    \<and> (\<forall>ys. M = map Num ys \<and> ys \<noteq> [] \<longrightarrow>
           np_mean M = Num (population_mean ys) \<and> np_std M = Num (population_std ys))
    \<and> (\<forall>ys. H = map Num ys \<and> ys \<noteq> [] \<longrightarrow>
           np_mean H = Num (population_mean ys) \<and> np_std H = Num (population_std ys))"
proof -
  have "calculate_mean_std recs v (int k) ms me hs he bin_size sr
           = Inr (np_mean M, np_std M, np_mean H, np_std H)"
    by (simp add: calculate_mean_std_def amplitudes_loop_matching [OF assms(1,2)] assms(3,4))
  then show ?thesis using np_population by blast
qed

theorem mean_std_is_population_statistics_of_matching_witness:
  "(1 / 20 :: real) \<noteq> 0
   \<and> matching_recordings [example_r1, example_r2, example_r3] (21 / 20) (1 / 20)
       = [example_r2, example_r3]
   \<and> 0 < length (channel_data example_r2) \<and> 0 < length (channel_data example_r3)
   \<and> map (\<lambda>r. calculate_average_amplitude (channel_data r ! 0) 0 2 1000)
        (matching_recordings [example_r1, example_r2, example_r3] (21 / 20) (1 / 20))
       = map Num [2, 3]
   \<and> map (\<lambda>r. calculate_average_amplitude (channel_data r ! 0) 2 4 1000)
        (matching_recordings [example_r1, example_r2, example_r3] (21 / 20) (1 / 20))
       = map Num [2, 4]
   \<and> calculate_mean_std [example_r1, example_r2, example_r3] (21 / 20) (int 0) 0 2 2 4 (1 / 20) 1000
       = Inr (Num (5 / 2), Num (1 / 2), Num 3, Num 1)"
proof -
  have b: "(1 / 20 :: real) \<noteq> 0" by simp
  have k: "\<forall>r \<in> set (matching_recordings [example_r1, example_r2, example_r3] (21 / 20) (1 / 20)).
         0 < length (channel_data r)"
    unfolding example_matching by (simp add: example_r2_def example_r3_def)
  have m: "map Num [2, 3] = map (\<lambda>r. calculate_average_amplitude (channel_data r ! 0) 0 2 1000)
        (matching_recordings [example_r1, example_r2, example_r3] (21 / 20) (1 / 20))"
    by (simp add: example_matching example_amplitudes)
  have h: "map Num [2, 4] = map (\<lambda>r. calculate_average_amplitude (channel_data r ! 0) 2 4 1000)
        (matching_recordings [example_r1, example_r2, example_r3] (21 / 20) (1 / 20))"
    by (simp add: example_matching example_amplitudes)
  have p: "np_mean (map Num [2, 3]) = Num (5 / 2)" "np_std (map Num [2, 3]) = Num (1 / 2)"
    "np_mean (map Num [2, 4]) = Num 3" "np_std (map Num [2, 4]) = Num 1"
    using np_population [of "[2, 3]"] np_population [of "[2, 4]"]
    by (simp_all add: example_population)
  have "calculate_mean_std [example_r1, example_r2, example_r3] (21 / 20) (int 0) 0 2 2 4 (1 / 20) 1000
       = Inr (np_mean (map Num [2, 3]), np_std (map Num [2, 3]),
              np_mean (map Num [2, 4]), np_std (map Num [2, 4]))"
    using mean_std_is_population_statistics_of_matching [OF b k m h] by blast
  then have "calculate_mean_std [example_r1, example_r2, example_r3] (21 / 20) (int 0) 0 2 2 4 (1 / 20) 1000
       = Inr (Num (5 / 2), Num (1 / 2), Num 3, Num 1)"
    unfolding p .
  moreover have "0 < length (channel_data example_r2) \<and> 0 < length (channel_data example_r3)"
    by (simp add: example_r2_def example_r3_def)
  ultimately show ?thesis using b example_matching m [symmetric] h [symmetric] by blast
qed

text \<open>
  Claim C4. Three recordings with stimulus voltages 1.01, 1.04 and 1.06 and a bin size of
  0.05 have the binned voltages 1.00, 1.05 and 1.05, and for the target 1.05 the matching
  recordings are the second and the third. Whatever the channel data and the windows,
  \<^verbatim>\<open>calculate_mean_std\<close> returns the mean and standard deviation of the two amplitudes of
  the second and third recordings (or raises on the channel index of one of the two);
  the first recording has no part in the result. On the example recordings, whose
  M amplitudes are 2, 2 and 3 and whose H amplitudes are 2, 2 and 4, the result is
  (2.5, 0.5, 3, 1).

  The same holds in double precision, where the three voltages, the bin size and the
  target are the doubles nearest to the decimal literals: the binned voltages are 1.0 and
  twice the double nearest to 1.05, which is not 1.0, and the result is that of the
  second and third recordings.
\<close>

theorem three_recordings_pool_second_and_third:
  "map (\<lambda>r. binned_stimulus_v r (5 / 100))
     [\<lparr>stimulus_v = 101 / 100, channel_data = c1\<rparr>,
      \<lparr>stimulus_v = 104 / 100, channel_data = c2\<rparr>,
      \<lparr>stimulus_v = 106 / 100, channel_data = c3\<rparr>]
     = [Inr 1, Inr (105 / 100), Inr (105 / 100)]
   \<and> matching_recordings
       [\<lparr>stimulus_v = 101 / 100, channel_data = c1\<rparr>,
        \<lparr>stimulus_v = 104 / 100, channel_data = c2\<rparr>,
        \<lparr>stimulus_v = 106 / 100, channel_data = c3\<rparr>] (105 / 100) (5 / 100)
     = [\<lparr>stimulus_v = 104 / 100, channel_data = c2\<rparr>,
        \<lparr>stimulus_v = 106 / 100, channel_data = c3\<rparr>]
   \<and> calculate_mean_std
       [\<lparr>stimulus_v = 101 / 100, channel_data = c1\<rparr>,
        \<lparr>stimulus_v = 104 / 100, channel_data = c2\<rparr>,
        \<lparr>stimulus_v = 106 / 100, channel_data = c3\<rparr>] (105 / 100) ch ms me hs he (5 / 100) sr
     = (case py_index c2 ch of
          Inl e \<Rightarrow> Inl e
        | Inr d2 \<Rightarrow>
            (case py_index c3 ch of
               Inl e \<Rightarrow> Inl e
             | Inr d3 \<Rightarrow>
                 Inr (np_mean [calculate_average_amplitude d2 ms me sr,
                               calculate_average_amplitude d3 ms me sr],
                      np_std [calculate_average_amplitude d2 ms me sr,
                              calculate_average_amplitude d3 ms me sr],
                      np_mean [calculate_average_amplitude d2 hs he sr,
                               calculate_average_amplitude d3 hs he sr],
                      np_std [calculate_average_amplitude d2 hs he sr,
                              calculate_average_amplitude d3 hs he sr])))
   \<and> calculate_mean_std [example_r1, example_r2, example_r3] (105 / 100) 0 0 2 2 4 (5 / 100) 1000
     = Inr (Num (5 / 2), Num (1 / 2), Num 3, Num 1)
   \<and> map (\<lambda>r. binned_stimulus_v_binary64 r (binary64 (5 / 100)))
       [\<lparr>stimulus_v = binary64 (101 / 100), channel_data = c1\<rparr>,
        \<lparr>stimulus_v = binary64 (104 / 100), channel_data = c2\<rparr>,
        \<lparr>stimulus_v = binary64 (106 / 100), channel_data = c3\<rparr>]
     = [Inr 1, Inr (binary64 (105 / 100)), Inr (binary64 (105 / 100))]
   \<and> binary64 (105 / 100) \<noteq> 1
   \<and> calculate_mean_std_binary64
       [\<lparr>stimulus_v = binary64 (101 / 100), channel_data = c1\<rparr>,
        \<lparr>stimulus_v = binary64 (104 / 100), channel_data = c2\<rparr>,
        \<lparr>stimulus_v = binary64 (106 / 100), channel_data = c3\<rparr>]
       (binary64 (105 / 100)) ch ms me hs he (binary64 (5 / 100)) sr
     = (case py_index c2 ch of
          Inl e \<Rightarrow> Inl e
        | Inr d2 \<Rightarrow>
            (case py_index c3 ch of
               Inl e \<Rightarrow> Inl e
             | Inr d3 \<Rightarrow>
                 Inr (np_mean [calculate_average_amplitude d2 ms me sr,
                               calculate_average_amplitude d3 ms me sr],
                      np_std [calculate_average_amplitude d2 ms me sr,
                              calculate_average_amplitude d3 ms me sr],
                      np_mean [calculate_average_amplitude d2 hs he sr,
                               calculate_average_amplitude d3 hs he sr],
                      np_std [calculate_average_amplitude d2 hs he sr,
                              calculate_average_amplitude d3 hs he sr])))"
proof (intro conjI)
  show "binary64 (105 / 100) \<noteq> 1"
    unfolding binary64_literals by simp
  show "calculate_mean_std [example_r1, example_r2, example_r3] (105 / 100) 0 0 2 2 4 (5 / 100) 1000
     = Inr (Num (5 / 2), Num (1 / 2), Num 3, Num 1)"
    using example_mean_std by simp
  show "map (\<lambda>r. binned_stimulus_v_binary64 r (binary64 (5 / 100)))
       [\<lparr>stimulus_v = binary64 (101 / 100), channel_data = c1\<rparr>,
        \<lparr>stimulus_v = binary64 (104 / 100), channel_data = c2\<rparr>,
        \<lparr>stimulus_v = binary64 (106 / 100), channel_data = c3\<rparr>]
     = [Inr 1, Inr (binary64 (105 / 100)), Inr (binary64 (105 / 100))]"
    unfolding binary64_literals by (simp add: binned_binary64_three)
  show "calculate_mean_std_binary64
       [\<lparr>stimulus_v = binary64 (101 / 100), channel_data = c1\<rparr>,
        \<lparr>stimulus_v = binary64 (104 / 100), channel_data = c2\<rparr>,
        \<lparr>stimulus_v = binary64 (106 / 100), channel_data = c3\<rparr>]
       (binary64 (105 / 100)) ch ms me hs he (binary64 (5 / 100)) sr
     = (case py_index c2 ch of
          Inl e \<Rightarrow> Inl e
        | Inr d2 \<Rightarrow>
            (case py_index c3 ch of
               Inl e \<Rightarrow> Inl e
             | Inr d3 \<Rightarrow>
                 Inr (np_mean [calculate_average_amplitude d2 ms me sr,
                               calculate_average_amplitude d3 ms me sr],
                      np_std [calculate_average_amplitude d2 ms me sr,
                              calculate_average_amplitude d3 ms me sr],
                      np_mean [calculate_average_amplitude d2 hs he sr,
                               calculate_average_amplitude d3 hs he sr],
                      np_std [calculate_average_amplitude d2 hs he sr,
                              calculate_average_amplitude d3 hs he sr])))"
    unfolding binary64_literals
    by (simp add: calculate_mean_std_binary64_def binned_binary64_three split: sum.split)
qed (simp_all add: matching_recordings_def calculate_mean_std_def binned_three split: sum.split)

text \<open>
  Claim C5, as amended. When no recording matches the requested binned voltage,
  \<^verbatim>\<open>calculate_mean_std\<close> returns not-a-number for all four statistics. When a window slice
  is empty, \<^verbatim>\<open>calculate_average_amplitude\<close> returns not-a-number, and the mean and the
  standard deviation of that window over the matching recordings are not-a-number. In
  none of these cases is the result zero or any other number.
\<close>

theorem mean_std_no_data_is_nan:
  "(bin_size \<noteq> 0 \<and> matching_recordings recs v bin_size = []
      \<longrightarrow> calculate_mean_std recs v ch ms me hs he bin_size sr = Inr (NaN, NaN, NaN, NaN))
   \<and> (py_slice xs (py_int (s * sr / 1000)) (py_int (e * sr / 1000)) = []
      \<longrightarrow> calculate_average_amplitude xs s e sr = NaN)
   \<and> (bin_size \<noteq> 0
       \<and> (\<forall>r \<in> set (matching_recordings recs v bin_size). k < length (channel_data r))
       \<and> r \<in> set (matching_recordings recs v bin_size)
       \<and> py_slice (channel_data r ! k) (py_int (ms * sr / 1000)) (py_int (me * sr / 1000)) = []
      \<longrightarrow> (\<exists>c d. calculate_mean_std recs v (int k) ms me hs he bin_size sr = Inr (NaN, NaN, c, d)))
   \<and> (bin_size \<noteq> 0
       \<and> (\<forall>r \<in> set (matching_recordings recs v bin_size). k < length (channel_data r))
       \<and> r \<in> set (matching_recordings recs v bin_size)
       \<and> py_slice (channel_data r ! k) (py_int (hs * sr / 1000)) (py_int (he * sr / 1000)) = []
      \<longrightarrow> (\<exists>a b. calculate_mean_std recs v (int k) ms me hs he bin_size sr = Inr (a, b, NaN, NaN)))"
proof (intro conjI impI)
  assume "bin_size \<noteq> 0 \<and> matching_recordings recs v bin_size = []"
  then show "calculate_mean_std recs v ch ms me hs he bin_size sr = Inr (NaN, NaN, NaN, NaN)"
    by (simp add: mean_std_no_match)
next
  assume "py_slice xs (py_int (s * sr / 1000)) (py_int (e * sr / 1000)) = []"
  then show "calculate_average_amplitude xs s e sr = NaN"
    by (simp add: average_amplitude_slice)
next
  assume a: "bin_size \<noteq> 0
       \<and> (\<forall>r \<in> set (matching_recordings recs v bin_size). k < length (channel_data r))
       \<and> r \<in> set (matching_recordings recs v bin_size)
       \<and> py_slice (channel_data r ! k) (py_int (ms * sr / 1000)) (py_int (me * sr / 1000)) = []"
  then have "calculate_average_amplitude (channel_data r ! k) ms me sr = NaN"
    by (simp add: average_amplitude_slice)
  with a have "NaN \<in> set (map (\<lambda>r. calculate_average_amplitude (channel_data r ! k) ms me sr)
                  (matching_recordings recs v bin_size))"
    by force
  from np_NaN [OF this] a
  show "\<exists>c d. calculate_mean_std recs v (int k) ms me hs he bin_size sr = Inr (NaN, NaN, c, d)"
    by (simp add: calculate_mean_std_def amplitudes_loop_matching)
next
  assume a: "bin_size \<noteq> 0
       \<and> (\<forall>r \<in> set (matching_recordings recs v bin_size). k < length (channel_data r))
       \<and> r \<in> set (matching_recordings recs v bin_size)
       \<and> py_slice (channel_data r ! k) (py_int (hs * sr / 1000)) (py_int (he * sr / 1000)) = []"
  then have "calculate_average_amplitude (channel_data r ! k) hs he sr = NaN"
    by (simp add: average_amplitude_slice)
  with a have "NaN \<in> set (map (\<lambda>r. calculate_average_amplitude (channel_data r ! k) hs he sr)
                  (matching_recordings recs v bin_size))"
    by force
  from np_NaN [OF this] a
  show "\<exists>a b. calculate_mean_std recs v (int k) ms me hs he bin_size sr = Inr (a, b, NaN, NaN)"
    by (simp add: calculate_mean_std_def amplitudes_loop_matching)
qed

theorem mean_std_no_data_is_nan_witness:
  "((1 / 20 :: real) \<noteq> 0 \<and> matching_recordings [example_r1] 5 (1 / 20) = []
    \<and> calculate_mean_std [example_r1] 5 0 2 4 2 4 (1 / 20) 1000 = Inr (NaN, NaN, NaN, NaN))
   \<and> (py_slice (channel_data example_short ! 0) (py_int (2 * 1000 / 1000))
         (py_int (4 * 1000 / 1000)) = []
    \<and> calculate_average_amplitude (channel_data example_short ! 0) 2 4 1000 = NaN)
   \<and> (matching_recordings [example_short] (21 / 20) (1 / 20) = [example_short]
    \<and> 0 < length (channel_data example_short)
    \<and> (\<exists>c d. calculate_mean_std [example_short] (21 / 20) (int 0) 2 4 2 4 (1 / 20) 1000
               = Inr (NaN, NaN, c, d))
    \<and> (\<exists>a b. calculate_mean_std [example_short] (21 / 20) (int 0) 2 4 2 4 (1 / 20) 1000
               = Inr (a, b, NaN, NaN)))"
proof -
  have b: "(1 / 20 :: real) \<noteq> 0" by simp
  have n: "matching_recordings [example_r1] 5 (1 / 20) = []"
    by (simp add: matching_recordings_def example_binned)
  have k: "\<forall>r \<in> set (matching_recordings [example_short] (21 / 20) (1 / 20)).
          0 < length (channel_data r)"
    unfolding example_short_matching by (simp add: example_short_def)
  have r: "example_short \<in> set (matching_recordings [example_short] (21 / 20) (1 / 20))"
    unfolding example_short_matching by simp
  note w = example_short_window
  note t1 = mean_std_no_data_is_nan [where bin_size = "1 / 20" and recs = "[example_r1]"
      and v = 5 and ch = 0 and ms = 2 and me = 4 and hs = 2 and he = 4 and sr = 1000
      and xs = "channel_data example_short ! 0" and s = 2 and e = 4]
  note t2 = mean_std_no_data_is_nan [where bin_size = "1 / 20" and recs = "[example_short]"
      and v = "21 / 20" and k = 0 and r = example_short and ms = 2 and me = 4 and hs = 2
      and he = 4 and sr = 1000]
  have "calculate_mean_std [example_r1] 5 0 2 4 2 4 (1 / 20) 1000 = Inr (NaN, NaN, NaN, NaN)"
    using t1 b n by blast
  moreover have "calculate_average_amplitude (channel_data example_short ! 0) 2 4 1000 = NaN"
    using t1 w by blast
  moreover have "\<exists>c d. calculate_mean_std [example_short] (21 / 20) (int 0) 2 4 2 4 (1 / 20) 1000
               = Inr (NaN, NaN, c, d)"
    using t2 b k r w by blast
  moreover have "\<exists>a b. calculate_mean_std [example_short] (21 / 20) (int 0) 2 4 2 4 (1 / 20) 1000
               = Inr (a, b, NaN, NaN)"
    using t2 b k r w by blast
  moreover have "0 < length (channel_data example_short)"
    by (simp add: example_short_def)
  ultimately show ?thesis using b n example_short_matching w by blast
qed

text \<open>
  Claim C5 as stated fails: the code has no result that says "no data". For a target
  voltage that no recording matches, and for a window past the end of the samples, what
  is returned is the bare not-a-number of \<^verbatim>\<open>np.mean\<close> and \<^verbatim>\<open>np.std\<close>.
\<close>

theorem mean_std_no_data_counterexample:
  "matching_recordings [example_r1] 5 (1 / 20) = []
   \<and> calculate_mean_std [example_r1] 5 0 0 2 2 4 (1 / 20) 1000 = Inr (NaN, NaN, NaN, NaN)
   \<and> py_slice [1, 2 :: real] (py_int (2 * 1000 / 1000)) (py_int (4 * 1000 / 1000)) = []
   \<and> calculate_average_amplitude [1, 2] 2 4 1000 = NaN"
  by (simp add: matching_recordings_def example_binned calculate_mean_std_def np_mean_def
      np_std_def average_amplitude_slice py_slice_def slice_bound_def py_int_def)

end
